theory Spec2Isabelle
  imports Main "HOL-Library.Word"
begin

unbundle bit_operations_syntax

section \<open>Numbers and typed arrays\<close>

text \<open>
  The emulator computes with JavaScript numbers that are always integers, so a number is
  an \<^typ>\<open>int\<close>.  The operators \<^verbatim>\<open>&\<close>, \<^verbatim>\<open>|\<close>, \<^verbatim>\<open><<\<close> and \<^verbatim>\<open>>>\<close> are
  \<open>AND\<close>, \<open>OR\<close>, \<open>push_bit\<close> and \<open>drop_bit\<close> on \<^typ>\<open>int\<close> (two's complement), which is
  what the 32-bit operators of JavaScript compute on the values that occur here.  Every
  mask of the source (\<^verbatim>\<open>& 0xFF\<close>, \<^verbatim>\<open>& 0xFFFF\<close>, \<^verbatim>\<open>& 0x0F\<close>) is written out.

  A \<^verbatim>\<open>Uint8Array\<close> is a function from the index to an 8-bit cell.  Every index the
  modelled code uses is in range (an address is masked to 16 bits first, the RAM and ROM
  arrays have 65536 cells as \<^verbatim>\<open>new Memory(65536)\<close> creates them, and the offsets into the
  character ROM and the colour RAM are below 4096 and 1024).
\<close>

type_synonym uint8array = "int \<Rightarrow> 8 word"

section \<open>Memory.js\<close>

text \<open>
  An entry of \<^verbatim>\<open>ioHandlers\<close>.  The two callbacks are closures over chip objects; \<^typ>\<open>'d\<close>
  is the state of those chips.  A read callback returns a number and may change the chip
  (\<^verbatim>\<open>SID.read\<close> draws random numbers), a write callback changes the chip.
\<close>

record 'd handler =
  start :: int
  endAddr :: int
  readHandler :: "int \<Rightarrow> 'd \<Rightarrow> int \<times> 'd"
  writeHandler :: "int \<Rightarrow> int \<Rightarrow> 'd \<Rightarrow> 'd"

text \<open>
  The fields of a \<^verbatim>\<open>Memory\<close> object.  \<^verbatim>\<open>ioHandlers\<close> is a \<^verbatim>\<open>Map\<close> whose key is the
  string \<^verbatim>\<open>`${startAddr}-${endAddr}`\<close>; the key is kept as the pair of the two numbers,
  and the map as the list of its entries in insertion order, which is the order in which
  \<^verbatim>\<open>for (... of this.ioHandlers)\<close> visits them.
\<close>

record 'd memory =
  ram :: uint8array
  rom :: uint8array
  charset :: uint8array
  colorRAM :: uint8array
  ioHandlers :: "((int \<times> int) \<times> 'd handler) list"
  bankConfig :: int

text \<open>The constructor: zeroed arrays, colour RAM filled with 14, configuration \<open>0x37\<close>.\<close>

definition Memory_new :: "'d memory" where
  "Memory_new =
     \<lparr>ram = (\<lambda>_. 0), rom = (\<lambda>_. 0), charset = (\<lambda>_. 0), colorRAM = (\<lambda>_. 14),
      ioHandlers = [], bankConfig = 0x37\<rparr>"

text \<open>\<^verbatim>\<open>Map.prototype.set\<close>: an existing key keeps its place, a new key goes last.\<close>

fun map_set :: "'k \<Rightarrow> 'v \<Rightarrow> ('k \<times> 'v) list \<Rightarrow> ('k \<times> 'v) list" where
  "map_set k v [] = [(k, v)]"
| "map_set k v ((k', v') # kvs) =
     (if k' = k then (k, v) # kvs else (k', v') # map_set k v kvs)"

definition setIOHandler ::
  "int \<Rightarrow> int \<Rightarrow> (int \<Rightarrow> 'd \<Rightarrow> int \<times> 'd) \<Rightarrow> (int \<Rightarrow> int \<Rightarrow> 'd \<Rightarrow> 'd) \<Rightarrow> 'd memory \<Rightarrow> 'd memory" where
  "setIOHandler startAddr endAddr' readHandler' writeHandler' m =
     m\<lparr>ioHandlers :=
         map_set (startAddr, endAddr')
           \<lparr>start = startAddr, endAddr = endAddr',
            readHandler = readHandler', writeHandler = writeHandler'\<rparr>
           (ioHandlers m)\<rparr>"

text \<open>
  The loop \<^verbatim>\<open>for (const [range, handler] of this.ioHandlers)\<close> of \<^verbatim>\<open>read\<close> and
  \<^verbatim>\<open>write\<close>: the first entry whose range contains the address.
\<close>

fun find_handler :: "((int \<times> int) \<times> 'd handler) list \<Rightarrow> int \<Rightarrow> 'd handler option" where
  "find_handler [] address = None"
| "find_handler ((key, handler) # rest) address =
     (if address \<ge> start handler \<and> address \<le> endAddr handler then Some handler
      else find_handler rest address)"

text \<open>
  \<^verbatim>\<open>read(address)\<close>.  It changes no field of the memory object; the chip state is
  threaded through because a read callback may change it.
\<close>

definition read :: "'d memory \<Rightarrow> 'd \<Rightarrow> int \<Rightarrow> int \<times> 'd" where
  "read m d address0 =
     (let address = address0 AND 0xFFFF in
      if address \<ge> 0xD800 \<and> address \<le> 0xDBFF then
        (uint (colorRAM m (address - 0xD800)) AND 0x0F, d)
      else
        (case find_handler (ioHandlers m) address of
           Some handler \<Rightarrow> readHandler handler address d
         | None \<Rightarrow>
             (let config = bankConfig m in
              if address \<ge> 0xA000 \<and> address \<le> 0xBFFF then
                (if config AND 0x01 \<noteq> 0 then (uint (rom m address), d)
                 else (uint (ram m address), d))
              else if address \<ge> 0xD000 \<and> address \<le> 0xDFFF then
                (if config AND 0x04 = 0 then (uint (charset m (address - 0xD000)), d)
                 else (uint (ram m address), d))
              else if address \<ge> 0xE000 \<and> address \<le> 0xFFFF then
                (if config AND 0x02 \<noteq> 0 then (uint (rom m address), d)
                 else (uint (ram m address), d))
              else (uint (ram m address), d))))"

text \<open>\<^verbatim>\<open>write(address, value)\<close>: the new memory object and the new chip state.\<close>

definition "write" :: "'d memory \<Rightarrow> 'd \<Rightarrow> int \<Rightarrow> int \<Rightarrow> 'd memory \<times> 'd" where
  "write m d address0 value0 =
     (let address = address0 AND 0xFFFF;
          val = value0 AND 0xFF in
      if address = 0x0001 then
        (m\<lparr>bankConfig := val, ram := (ram m)(address := word_of_int val)\<rparr>, d)
      else if address \<ge> 0xD800 \<and> address \<le> 0xDBFF then
        (m\<lparr>colorRAM := (colorRAM m)(address - 0xD800 := word_of_int (val AND 0x0F))\<rparr>, d)
      else
        (case find_handler (ioHandlers m) address of
           Some handler \<Rightarrow> (m, writeHandler handler address val d)
         | None \<Rightarrow> (m\<lparr>ram := (ram m)(address := word_of_int val)\<rparr>, d)))"

text \<open>\<^verbatim>\<open>read16\<close> and \<^verbatim>\<open>write16\<close>: the low byte is accessed first.\<close>

definition read16 :: "'d memory \<Rightarrow> 'd \<Rightarrow> int \<Rightarrow> int \<times> 'd" where
  "read16 m d address =
     (case read m d address of (lo, d1) \<Rightarrow>
      case read m d1 (address + 1) of (hi, d2) \<Rightarrow>
        (lo OR push_bit 8 hi, d2))"

definition write16 :: "'d memory \<Rightarrow> 'd \<Rightarrow> int \<Rightarrow> int \<Rightarrow> 'd memory \<times> 'd" where
  "write16 m d address val =
     (case write m d address (val AND 0xFF) of (m1, d1) \<Rightarrow>
        write m1 d1 (address + 1) (drop_bit 8 val AND 0xFF))"

text \<open>
  The words \<open>ROM-visible window\<close> of the memory map: the address ranges in which
  \<^const>\<open>read\<close> returns a ROM cell under configuration byte \<open>config\<close>.
\<close>

definition rom_visible :: "int \<Rightarrow> int \<Rightarrow> bool" where
  "rom_visible config address \<longleftrightarrow>
     (address \<ge> 0xA000 \<and> address \<le> 0xBFFF \<and> config AND 0x01 \<noteq> 0) \<or>
     (address \<ge> 0xD000 \<and> address \<le> 0xDFFF \<and> config AND 0x04 = 0) \<or>
     (address \<ge> 0xE000 \<and> address \<le> 0xFFFF \<and> config AND 0x02 \<noteq> 0)"

section \<open>VIC2.js.backup\<close>

text \<open>What a call can throw.\<close>

datatype js_error = TypeError

text \<open>
  The fields of a \<^verbatim>\<open>VIC2\<close> object that \<^verbatim>\<open>read\<close>, \<^verbatim>\<open>write\<close>, \<^verbatim>\<open>reset\<close> and
  \<^verbatim>\<open>cycle\<close> use.  The canvas, the palette and the screen geometry are used by rendering
  only.  \<open>own_cycle\<close> is the property named \<^verbatim>\<open>cycle\<close> of the object itself: the
  constructor creates none (\<open>None\<close>), so that \<^verbatim>\<open>vic.cycle\<close> is the method of the class;
  \<^verbatim>\<open>reset\<close> assigns \<^verbatim>\<open>this.cycle = 0\<close>, and from then on \<^verbatim>\<open>vic.cycle\<close> is that number.
\<close>

record vic2 =
  registers :: uint8array
  rasterY :: int
  cycleCounter :: int
  frameComplete :: bool
  borderColor :: int
  backgroundColor :: int
  own_cycle :: "int option"

definition VIC2_new :: vic2 where
  "VIC2_new =
     \<lparr>registers = (\<lambda>_. 0), rasterY = 0, cycleCounter = 0, frameComplete = False,
      borderColor = 14, backgroundColor = 6, own_cycle = None\<rparr>"

text \<open>
  \<^verbatim>\<open>reset()\<close>: the raster line to 0, the property \<^verbatim>\<open>cycle\<close> to 0, the registers
  cleared, then the two colour registers.  It does not touch \<^verbatim>\<open>cycleCounter\<close>.
\<close>

definition VIC2_reset :: "vic2 \<Rightarrow> vic2" where
  "VIC2_reset v =
     v\<lparr>rasterY := 0, own_cycle := Some 0, registers := (\<lambda>_. 0)(0x20 := 14, 0x21 := 6)\<rparr>"

definition VIC2_read :: "int \<Rightarrow> vic2 \<Rightarrow> int \<times> vic2" where
  "VIC2_read addr v =
     (let reg = addr AND 0x3F in
      if reg = 0x12 then (rasterY v AND 0xFF, v)
      else if reg = 0x11 then
        (drop_bit 1 (rasterY v AND 0x100) OR (uint (registers v reg) AND 0x7F), v)
      else (uint (registers v reg), v))"

definition VIC2_write :: "int \<Rightarrow> int \<Rightarrow> vic2 \<Rightarrow> vic2" where
  "VIC2_write addr val v =
     (let reg = addr AND 0x3F;
          v1 = v\<lparr>registers := (registers v)(reg := word_of_int val)\<rparr>;
          v2 = (if reg = 0x20 then v1\<lparr>borderColor := val AND 0x0F\<rparr> else v1)
      in if reg = 0x21 then v2\<lparr>backgroundColor := val AND 0x0F\<rparr> else v2)"

text \<open>The body of the method \<^verbatim>\<open>cycle()\<close> of the class: one clock cycle of the chip.\<close>

definition cycle_method :: "vic2 \<Rightarrow> vic2" where
  "cycle_method v =
     (let v1 = v\<lparr>cycleCounter := cycleCounter v + 1\<rparr> in
      if cycleCounter v1 \<ge> 63 then
        (let v2 = v1\<lparr>cycleCounter := 0, rasterY := rasterY v1 + 1\<rparr> in
         if rasterY v2 \<ge> 312 then v2\<lparr>rasterY := 0, frameComplete := True\<rparr> else v2)
      else v1)"

text \<open>
  The call \<^verbatim>\<open>vic.cycle()\<close>.  The property lookup finds the object's own property first:
  when \<^verbatim>\<open>reset\<close> has assigned it, \<^verbatim>\<open>vic.cycle\<close> is a number and the call throws
  \<^verbatim>\<open>TypeError\<close> before anything is counted; otherwise the method of the class runs.
\<close>

definition cycle :: "vic2 \<Rightarrow> js_error + vic2" where
  "cycle v =
     (case own_cycle v of
        Some n \<Rightarrow> Inl TypeError
      | None \<Rightarrow> Inr (cycle_method v))"

text \<open>
  \<^verbatim>\<open>for (let i = 0; i < cpuCycles; i++) this.vic.cycle()\<close> of
  \<^verbatim>\<open>C64Emulator.runFrame\<close>: that many calls in a row, ended by the first one that throws.
\<close>

fun cycle_times :: "nat \<Rightarrow> vic2 \<Rightarrow> js_error + vic2" where
  "cycle_times 0 v = Inr v"
| "cycle_times (Suc n) v =
     (case cycle v of Inl e \<Rightarrow> Inl e | Inr v' \<Rightarrow> cycle_times n v')"

text \<open>
  The first registration of \<^verbatim>\<open>C64Emulator.connectComponents\<close>: the video chip serves
  \<open>0xD000\<close> to \<open>0xD3FF\<close>.
\<close>

definition connectVIC :: "vic2 memory \<Rightarrow> vic2 memory" where
  "connectVIC m = setIOHandler 0xD000 0xD3FF VIC2_read VIC2_write m"

section \<open>MOS6502 (the second file of CIA.js)\<close>

text \<open>
  What the processor prints: \<^verbatim>\<open>console.log\<close> in \<^verbatim>\<open>reset\<close> (with the new PC),
  \<^verbatim>\<open>console.warn\<close> in \<^verbatim>\<open>step\<close> and \<^verbatim>\<open>console.log\<close> in the handler that fills the
  unassigned table entries (each with the opcode and the PC it prints).
\<close>

datatype log_entry = CPU_Reset int | Unknown_opcode int int | Illegal_opcode int int

text \<open>
  The fields of a \<^verbatim>\<open>MOS6502\<close> object, with the memory object it is bound to, the chips
  that the I/O callbacks of that memory reach, and the console output so far.
\<close>

record 'd cpu =
  memory :: "'d memory"
  chips :: 'd
  A :: int
  X :: int
  Y :: int
  SP :: int
  PC :: int
  N :: bool
  V :: bool
  B :: bool
  D :: bool
  I :: bool
  Z :: bool
  C :: bool
  cycles :: int
  console :: "log_entry list"

definition MOS6502_new :: "'d memory \<Rightarrow> 'd \<Rightarrow> 'd cpu" where
  "MOS6502_new m d =
     \<lparr>memory = m, chips = d, A = 0, X = 0, Y = 0, SP = 0xFD, PC = 0,
      N = False, V = False, B = False, D = False, I = False, Z = False, C = False,
      cycles = 0, console = []\<rparr>"

text \<open>\<^verbatim>\<open>this.memory.read\<close>, \<^verbatim>\<open>this.memory.write\<close> and \<^verbatim>\<open>this.memory.read16\<close>.\<close>

definition memory_read :: "'d cpu \<Rightarrow> int \<Rightarrow> int \<times> 'd cpu" where
  "memory_read s address =
     (case read (memory s) (chips s) address of (v, d) \<Rightarrow> (v, s\<lparr>chips := d\<rparr>))"

definition memory_write :: "'d cpu \<Rightarrow> int \<Rightarrow> int \<Rightarrow> 'd cpu" where
  "memory_write s address val =
     (case write (memory s) (chips s) address val of (m, d) \<Rightarrow> s\<lparr>memory := m, chips := d\<rparr>)"

definition memory_read16 :: "'d cpu \<Rightarrow> int \<Rightarrow> int \<times> 'd cpu" where
  "memory_read16 s address =
     (case read16 (memory s) (chips s) address of (v, d) \<Rightarrow> (v, s\<lparr>chips := d\<rparr>))"

definition reset :: "'d cpu \<Rightarrow> 'd cpu" where
  "reset s =
     (case memory_read16 s 0xFFFC of (pc, s1) \<Rightarrow>
        s1\<lparr>PC := pc, SP := 0xFD, A := 0, X := 0, Y := 0, I := True,
           console := console s1 @ [CPU_Reset pc]\<rparr>)"

subsection \<open>Status register and flags\<close>

definition getP :: "'d cpu \<Rightarrow> int" where
  "getP s =
     (let p = 0x20;
          p = (if N s then p OR 0x80 else p);
          p = (if V s then p OR 0x40 else p);
          p = (if B s then p OR 0x10 else p);
          p = (if D s then p OR 0x08 else p);
          p = (if I s then p OR 0x04 else p);
          p = (if Z s then p OR 0x02 else p);
          p = (if C s then p OR 0x01 else p)
      in p)"

definition setP :: "'d cpu \<Rightarrow> int \<Rightarrow> 'd cpu" where
  "setP s val =
     s\<lparr>N := (val AND 0x80 \<noteq> 0), V := (val AND 0x40 \<noteq> 0), B := (val AND 0x10 \<noteq> 0),
       D := (val AND 0x08 \<noteq> 0), I := (val AND 0x04 \<noteq> 0), Z := (val AND 0x02 \<noteq> 0),
       C := (val AND 0x01 \<noteq> 0)\<rparr>"

definition setNZ :: "'d cpu \<Rightarrow> int \<Rightarrow> 'd cpu" where
  "setNZ s val = s\<lparr>N := (val AND 0x80 \<noteq> 0), Z := (val = 0)\<rparr>"

subsection \<open>Stack operations\<close>

definition push :: "'d cpu \<Rightarrow> int \<Rightarrow> 'd cpu" where
  "push s val =
     (let s1 = memory_write s (0x0100 + SP s) val in s1\<lparr>SP := (SP s1 - 1) AND 0xFF\<rparr>)"

definition pull :: "'d cpu \<Rightarrow> int \<times> 'd cpu" where
  "pull s =
     (let s1 = s\<lparr>SP := (SP s + 1) AND 0xFF\<rparr> in memory_read s1 (0x0100 + SP s1))"

definition push16 :: "'d cpu \<Rightarrow> int \<Rightarrow> 'd cpu" where
  "push16 s val = push (push s (drop_bit 8 val AND 0xFF)) (val AND 0xFF)"

definition pull16 :: "'d cpu \<Rightarrow> int \<times> 'd cpu" where
  "pull16 s =
     (case pull s of (lo, s1) \<Rightarrow>
      case pull s1 of (hi, s2) \<Rightarrow> (push_bit 8 hi OR lo, s2))"

subsection \<open>Addressing modes\<close>

definition immediate :: "'d cpu \<Rightarrow> int \<times> 'd cpu" where
  "immediate s = (PC s, s\<lparr>PC := (PC s + 1) AND 0xFFFF\<rparr>)"

definition zeroPage :: "'d cpu \<Rightarrow> int \<times> 'd cpu" where
  "zeroPage s =
     (case memory_read s (PC s) of (addr, s1) \<Rightarrow> (addr, s1\<lparr>PC := (PC s1 + 1) AND 0xFFFF\<rparr>))"

definition zeroPageX :: "'d cpu \<Rightarrow> int \<times> 'd cpu" where
  "zeroPageX s =
     (case memory_read s (PC s) of (b, s1) \<Rightarrow>
        ((b + X s1) AND 0xFF, s1\<lparr>PC := (PC s1 + 1) AND 0xFFFF\<rparr>))"

definition zeroPageY :: "'d cpu \<Rightarrow> int \<times> 'd cpu" where
  "zeroPageY s =
     (case memory_read s (PC s) of (b, s1) \<Rightarrow>
        ((b + Y s1) AND 0xFF, s1\<lparr>PC := (PC s1 + 1) AND 0xFFFF\<rparr>))"

definition absolute :: "'d cpu \<Rightarrow> int \<times> 'd cpu" where
  "absolute s =
     (case memory_read16 s (PC s) of (addr, s1) \<Rightarrow>
        (addr, s1\<lparr>PC := (PC s1 + 2) AND 0xFFFF\<rparr>))"

definition absoluteX :: "'d cpu \<Rightarrow> int \<times> 'd cpu" where
  "absoluteX s =
     (case memory_read16 s (PC s) of (w, s1) \<Rightarrow>
        ((w + X s1) AND 0xFFFF, s1\<lparr>PC := (PC s1 + 2) AND 0xFFFF\<rparr>))"

definition absoluteY :: "'d cpu \<Rightarrow> int \<times> 'd cpu" where
  "absoluteY s =
     (case memory_read16 s (PC s) of (w, s1) \<Rightarrow>
        ((w + Y s1) AND 0xFFFF, s1\<lparr>PC := (PC s1 + 2) AND 0xFFFF\<rparr>))"

definition indirect :: "'d cpu \<Rightarrow> int \<times> 'd cpu" where
  "indirect s =
     (case memory_read16 s (PC s) of (ptr, s1) \<Rightarrow>
      let s2 = s1\<lparr>PC := (PC s1 + 2) AND 0xFFFF\<rparr> in
      if ptr AND 0xFF = 0xFF then
        (case memory_read s2 ptr of (lo, s3) \<Rightarrow>
         case memory_read s3 (ptr AND 0xFF00) of (hi, s4) \<Rightarrow> (push_bit 8 hi OR lo, s4))
      else memory_read16 s2 ptr)"

definition indirectX :: "'d cpu \<Rightarrow> int \<times> 'd cpu" where
  "indirectX s =
     (case memory_read s (PC s) of (b, s1) \<Rightarrow>
      let ptr = (b + X s1) AND 0xFF in
      memory_read16 (s1\<lparr>PC := (PC s1 + 1) AND 0xFFFF\<rparr>) ptr)"

definition indirectY :: "'d cpu \<Rightarrow> int \<times> 'd cpu" where
  "indirectY s =
     (case memory_read s (PC s) of (ptr, s1) \<Rightarrow>
      case memory_read16 (s1\<lparr>PC := (PC s1 + 1) AND 0xFFFF\<rparr>) ptr of (w, s2) \<Rightarrow>
        ((w + Y s2) AND 0xFFFF, s2))"

definition relative :: "'d cpu \<Rightarrow> int \<times> 'd cpu" where
  "relative s =
     (case memory_read s (PC s) of (offset, s1) \<Rightarrow>
        (if offset < 0x80 then offset else offset - 256, s1\<lparr>PC := (PC s1 + 1) AND 0xFFFF\<rparr>))"

subsection \<open>The instructions that buildInstructionTable assigns\<close>

text \<open>Each takes the state after \<^verbatim>\<open>step\<close> has advanced PC and returns its cycle count.\<close>

definition NOP :: "'d cpu \<Rightarrow> int \<times> 'd cpu" where
  "NOP s = (2, s)"

definition LDA_imm :: "'d cpu \<Rightarrow> int \<times> 'd cpu" where
  "LDA_imm s =
     (case immediate s of (addr, s1) \<Rightarrow>
      case memory_read s1 addr of (v, s2) \<Rightarrow>
      let s3 = s2\<lparr>A := v\<rparr> in (2, setNZ s3 (A s3)))"

definition LDA_zp :: "'d cpu \<Rightarrow> int \<times> 'd cpu" where
  "LDA_zp s =
     (case zeroPage s of (addr, s1) \<Rightarrow>
      case memory_read s1 addr of (v, s2) \<Rightarrow>
      let s3 = s2\<lparr>A := v\<rparr> in (3, setNZ s3 (A s3)))"

definition LDA_abs :: "'d cpu \<Rightarrow> int \<times> 'd cpu" where
  "LDA_abs s =
     (case absolute s of (addr, s1) \<Rightarrow>
      case memory_read s1 addr of (v, s2) \<Rightarrow>
      let s3 = s2\<lparr>A := v\<rparr> in (4, setNZ s3 (A s3)))"

definition LDX_imm :: "'d cpu \<Rightarrow> int \<times> 'd cpu" where
  "LDX_imm s =
     (case immediate s of (addr, s1) \<Rightarrow>
      case memory_read s1 addr of (v, s2) \<Rightarrow>
      let s3 = s2\<lparr>X := v\<rparr> in (2, setNZ s3 (X s3)))"

definition LDX_zp :: "'d cpu \<Rightarrow> int \<times> 'd cpu" where
  "LDX_zp s =
     (case zeroPage s of (addr, s1) \<Rightarrow>
      case memory_read s1 addr of (v, s2) \<Rightarrow>
      let s3 = s2\<lparr>X := v\<rparr> in (3, setNZ s3 (X s3)))"

definition LDY_imm :: "'d cpu \<Rightarrow> int \<times> 'd cpu" where
  "LDY_imm s =
     (case immediate s of (addr, s1) \<Rightarrow>
      case memory_read s1 addr of (v, s2) \<Rightarrow>
      let s3 = s2\<lparr>Y := v\<rparr> in (2, setNZ s3 (Y s3)))"

definition STA_zp :: "'d cpu \<Rightarrow> int \<times> 'd cpu" where
  "STA_zp s = (case zeroPage s of (addr, s1) \<Rightarrow> (3, memory_write s1 addr (A s1)))"

definition STA_abs :: "'d cpu \<Rightarrow> int \<times> 'd cpu" where
  "STA_abs s = (case absolute s of (addr, s1) \<Rightarrow> (4, memory_write s1 addr (A s1)))"

definition STA_zpx :: "'d cpu \<Rightarrow> int \<times> 'd cpu" where
  "STA_zpx s = (case zeroPageX s of (addr, s1) \<Rightarrow> (4, memory_write s1 addr (A s1)))"

definition STA_absx :: "'d cpu \<Rightarrow> int \<times> 'd cpu" where
  "STA_absx s = (case absoluteX s of (addr, s1) \<Rightarrow> (5, memory_write s1 addr (A s1)))"

definition STX_zp :: "'d cpu \<Rightarrow> int \<times> 'd cpu" where
  "STX_zp s = (case zeroPage s of (addr, s1) \<Rightarrow> (3, memory_write s1 addr (X s1)))"

definition STY_zp :: "'d cpu \<Rightarrow> int \<times> 'd cpu" where
  "STY_zp s = (case zeroPage s of (addr, s1) \<Rightarrow> (3, memory_write s1 addr (Y s1)))"

definition TAX :: "'d cpu \<Rightarrow> int \<times> 'd cpu" where
  "TAX s = (let s1 = s\<lparr>X := A s\<rparr> in (2, setNZ s1 (X s1)))"

definition TAY :: "'d cpu \<Rightarrow> int \<times> 'd cpu" where
  "TAY s = (let s1 = s\<lparr>Y := A s\<rparr> in (2, setNZ s1 (Y s1)))"

definition TXA :: "'d cpu \<Rightarrow> int \<times> 'd cpu" where
  "TXA s = (let s1 = s\<lparr>A := X s\<rparr> in (2, setNZ s1 (A s1)))"

definition TYA :: "'d cpu \<Rightarrow> int \<times> 'd cpu" where
  "TYA s = (let s1 = s\<lparr>A := Y s\<rparr> in (2, setNZ s1 (A s1)))"

definition TXS :: "'d cpu \<Rightarrow> int \<times> 'd cpu" where
  "TXS s = (2, s\<lparr>SP := X s\<rparr>)"

definition TSX :: "'d cpu \<Rightarrow> int \<times> 'd cpu" where
  "TSX s = (let s1 = s\<lparr>X := SP s\<rparr> in (2, setNZ s1 (X s1)))"

definition INX :: "'d cpu \<Rightarrow> int \<times> 'd cpu" where
  "INX s = (let s1 = s\<lparr>X := (X s + 1) AND 0xFF\<rparr> in (2, setNZ s1 (X s1)))"

definition INY :: "'d cpu \<Rightarrow> int \<times> 'd cpu" where
  "INY s = (let s1 = s\<lparr>Y := (Y s + 1) AND 0xFF\<rparr> in (2, setNZ s1 (Y s1)))"

definition DEX :: "'d cpu \<Rightarrow> int \<times> 'd cpu" where
  "DEX s = (let s1 = s\<lparr>X := (X s - 1) AND 0xFF\<rparr> in (2, setNZ s1 (X s1)))"

definition DEY :: "'d cpu \<Rightarrow> int \<times> 'd cpu" where
  "DEY s = (let s1 = s\<lparr>Y := (Y s - 1) AND 0xFF\<rparr> in (2, setNZ s1 (Y s1)))"

definition BNE :: "'d cpu \<Rightarrow> int \<times> 'd cpu" where
  "BNE s =
     (case relative s of (offset, s1) \<Rightarrow>
        if \<not> Z s1 then (3, s1\<lparr>PC := (PC s1 + offset) AND 0xFFFF\<rparr>) else (2, s1))"

definition BEQ :: "'d cpu \<Rightarrow> int \<times> 'd cpu" where
  "BEQ s =
     (case relative s of (offset, s1) \<Rightarrow>
        if Z s1 then (3, s1\<lparr>PC := (PC s1 + offset) AND 0xFFFF\<rparr>) else (2, s1))"

definition BPL :: "'d cpu \<Rightarrow> int \<times> 'd cpu" where
  "BPL s =
     (case relative s of (offset, s1) \<Rightarrow>
        if \<not> N s1 then (3, s1\<lparr>PC := (PC s1 + offset) AND 0xFFFF\<rparr>) else (2, s1))"

definition BMI :: "'d cpu \<Rightarrow> int \<times> 'd cpu" where
  "BMI s =
     (case relative s of (offset, s1) \<Rightarrow>
        if N s1 then (3, s1\<lparr>PC := (PC s1 + offset) AND 0xFFFF\<rparr>) else (2, s1))"

definition JMP_abs :: "'d cpu \<Rightarrow> int \<times> 'd cpu" where
  "JMP_abs s = (case absolute s of (addr, s1) \<Rightarrow> (3, s1\<lparr>PC := addr\<rparr>))"

definition JMP_ind :: "'d cpu \<Rightarrow> int \<times> 'd cpu" where
  "JMP_ind s = (case indirect s of (addr, s1) \<Rightarrow> (5, s1\<lparr>PC := addr\<rparr>))"

definition JSR :: "'d cpu \<Rightarrow> int \<times> 'd cpu" where
  "JSR s =
     (case absolute s of (addr, s1) \<Rightarrow>
      let s2 = push16 s1 (PC s1 - 1) in (6, s2\<lparr>PC := addr\<rparr>))"

definition RTS :: "'d cpu \<Rightarrow> int \<times> 'd cpu" where
  "RTS s = (case pull16 s of (w, s1) \<Rightarrow> (6, s1\<lparr>PC := (w + 1) AND 0xFFFF\<rparr>))"

definition PHA :: "'d cpu \<Rightarrow> int \<times> 'd cpu" where
  "PHA s = (3, push s (A s))"

definition PLA :: "'d cpu \<Rightarrow> int \<times> 'd cpu" where
  "PLA s =
     (case pull s of (v, s1) \<Rightarrow>
      let s2 = s1\<lparr>A := v\<rparr> in (4, setNZ s2 (A s2)))"

definition SEI :: "'d cpu \<Rightarrow> int \<times> 'd cpu" where
  "SEI s = (2, s\<lparr>I := True\<rparr>)"

definition CLI :: "'d cpu \<Rightarrow> int \<times> 'd cpu" where
  "CLI s = (2, s\<lparr>I := False\<rparr>)"

definition CLD :: "'d cpu \<Rightarrow> int \<times> 'd cpu" where
  "CLD s = (2, s\<lparr>D := False\<rparr>)"

definition SEC :: "'d cpu \<Rightarrow> int \<times> 'd cpu" where
  "SEC s = (2, s\<lparr>C := True\<rparr>)"

definition CLC :: "'d cpu \<Rightarrow> int \<times> 'd cpu" where
  "CLC s = (2, s\<lparr>C := False\<rparr>)"

definition CMP_imm :: "'d cpu \<Rightarrow> int \<times> 'd cpu" where
  "CMP_imm s =
     (case immediate s of (addr, s1) \<Rightarrow>
      case memory_read s1 addr of (v, s2) \<Rightarrow>
      let result = A s2 - v;
          s3 = s2\<lparr>C := (A s2 \<ge> v)\<rparr>
      in (2, setNZ s3 (result AND 0xFF)))"

definition CPX_imm :: "'d cpu \<Rightarrow> int \<times> 'd cpu" where
  "CPX_imm s =
     (case immediate s of (addr, s1) \<Rightarrow>
      case memory_read s1 addr of (v, s2) \<Rightarrow>
      let result = X s2 - v;
          s3 = s2\<lparr>C := (X s2 \<ge> v)\<rparr>
      in (2, setNZ s3 (result AND 0xFF)))"

definition RTI :: "'d cpu \<Rightarrow> int \<times> 'd cpu" where
  "RTI s =
     (case pull s of (p, s1) \<Rightarrow>
      case pull16 (setP s1 p) of (w, s2) \<Rightarrow> (6, s2\<lparr>PC := w\<rparr>))"

text \<open>
  The assignments \<^verbatim>\<open>this.instructions[0x..] = function() {...}\<close>, in the order of the
  source; no opcode is assigned twice.
\<close>

definition assigned :: "(int \<times> ('d cpu \<Rightarrow> int \<times> 'd cpu)) list" where
  "assigned =
     [(0xEA, NOP),
      (0xA9, LDA_imm), (0xA5, LDA_zp), (0xAD, LDA_abs),
      (0xA2, LDX_imm), (0xA6, LDX_zp),
      (0xA0, LDY_imm),
      (0x85, STA_zp), (0x8D, STA_abs), (0x95, STA_zpx), (0x9D, STA_absx),
      (0x86, STX_zp),
      (0x84, STY_zp),
      (0xAA, TAX), (0xA8, TAY), (0x8A, TXA), (0x98, TYA), (0x9A, TXS), (0xBA, TSX),
      (0xE8, INX), (0xC8, INY), (0xCA, DEX), (0x88, DEY),
      (0xD0, BNE), (0xF0, BEQ), (0x10, BPL), (0x30, BMI),
      (0x4C, JMP_abs), (0x6C, JMP_ind), (0x20, JSR), (0x60, RTS),
      (0x48, PHA), (0x68, PLA),
      (0x78, SEI), (0x58, CLI), (0xD8, CLD), (0x38, SEC), (0x18, CLC),
      (0xC9, CMP_imm), (0xE0, CPX_imm),
      (0x40, RTI)]"

text \<open>
  The handler that the final loop of \<^verbatim>\<open>buildInstructionTable\<close> stores in every entry
  left unassigned: it prints the opcode and the current PC and returns 2.
\<close>

definition illegal_opcode :: "int \<Rightarrow> 'd cpu \<Rightarrow> int \<times> 'd cpu" where
  "illegal_opcode i s = (2, s\<lparr>console := console s @ [Illegal_opcode i (PC s)]\<rparr>)"

text \<open>
  \<^verbatim>\<open>this.instructions[opcode]\<close> after \<^verbatim>\<open>buildInstructionTable\<close>: the array has the 256
  entries 0 to 255, and any other index gives \<^verbatim>\<open>undefined\<close>.
\<close>

definition instructions :: "int \<Rightarrow> ('d cpu \<Rightarrow> int \<times> 'd cpu) option" where
  "instructions opcode =
     (if 0 \<le> opcode \<and> opcode < 256 then
        (case map_of assigned opcode of
           Some instruction \<Rightarrow> Some instruction
         | None \<Rightarrow> Some (illegal_opcode opcode))
      else None)"

definition step :: "'d cpu \<Rightarrow> int \<times> 'd cpu" where
  "step s =
     (case memory_read s (PC s) of (opcode, s1) \<Rightarrow>
        (case instructions opcode of
           None \<Rightarrow>
             (2, s1\<lparr>PC := (PC s1 + 1) AND 0xFFFF,
                    console := console s1 @ [Unknown_opcode opcode (PC s1)]\<rparr>)
         | Some instruction \<Rightarrow>
             (case instruction (s1\<lparr>PC := (PC s1 + 1) AND 0xFFFF\<rparr>) of (cyc, s2) \<Rightarrow>
                (cyc, s2\<lparr>cycles := cycles s2 + cyc\<rparr>))))"

subsection \<open>Interrupts\<close>

definition irq :: "'d cpu \<Rightarrow> 'd cpu" where
  "irq s =
     (if \<not> I s then
        (let s1 = push16 s (PC s);
             s2 = push s1 (getP s1 OR 0x20);
             s3 = s2\<lparr>I := True\<rparr>
         in case memory_read16 s3 0xFFFE of (pc, s4) \<Rightarrow> s4\<lparr>PC := pc\<rparr>)
      else s)"

definition nmi :: "'d cpu \<Rightarrow> 'd cpu" where
  "nmi s =
     (let s1 = push16 s (PC s);
          s2 = push s1 (getP s1 OR 0x20);
          s3 = s2\<lparr>I := True\<rparr>
      in case memory_read16 s3 0xFFFA of (pc, s4) \<Rightarrow> s4\<lparr>PC := pc\<rparr>)"

text \<open>The stack page, \<open>0x0100\<close> to \<open>0x01FF\<close>.\<close>

definition stack_page :: "int \<Rightarrow> bool" where
  "stack_page address \<longleftrightarrow> 0x0100 \<le> address \<and> address \<le> 0x01FF"

section \<open>Vocabulary of the statements\<close>

text \<open>The registers and the seven flags of a processor, as one tuple.\<close>

definition registers_flags ::
  "'d cpu \<Rightarrow> int \<times> int \<times> int \<times> int \<times> int \<times> bool \<times> bool \<times> bool \<times> bool \<times> bool \<times> bool \<times> bool" where
  "registers_flags s = (A s, X s, Y s, SP s, PC s, N s, V s, B s, D s, I s, Z s, C s)"

text \<open>
  The status byte in the words of the specification: the seven flags at their bit
  positions (negative 128, overflow 64, break 16, decimal 8, interrupt-disable 4, zero 2,
  carry 1) and the reserved bit 32, which is always set.
\<close>

definition status_byte :: "'d cpu \<Rightarrow> int" where
  "status_byte s =
     (if N s then 128 else 0) + (if V s then 64 else 0) + 32 + (if B s then 16 else 0)
     + (if D s then 8 else 0) + (if I s then 4 else 0) + (if Z s then 2 else 0)
     + (if C s then 1 else 0)"

text \<open>
  The interrupt sequence in the words of the specification, written with the memory
  accesses it makes: store the high byte of PC at \<open>0x0100 + SP\<close>, the low byte of PC one
  below and the status byte one below that (each stack address wrapping inside the
  page), move SP down by three modulo 256, set the interrupt-disable flag, and load PC
  from the byte at the vector (low) and the byte after it (high).
\<close>

definition spec_interrupt_sequence :: "int \<Rightarrow> 'd cpu \<Rightarrow> 'd cpu" where
  "spec_interrupt_sequence vector s =
     (let s1 = memory_write s (0x0100 + SP s) (PC s div 256 mod 256);
          s2 = memory_write s1 (0x0100 + (SP s - 1) mod 256) (PC s mod 256);
          s3 = memory_write s2 (0x0100 + (SP s - 2) mod 256) (status_byte s)
      in case read (memory s3) (chips s3) vector of (lo, d1) \<Rightarrow>
         case read (memory s3) d1 (vector + 1) of (hi, d2) \<Rightarrow>
           s3\<lparr>chips := d2, SP := (SP s - 3) mod 256, I := True, PC := lo OR push_bit 8 hi\<rparr>)"

text \<open>
  Of two memory objects, the second differs from the first in RAM cells of the stack page
  at most: ROM, character ROM, colour RAM, the handler table and the configuration byte
  are the same, and so is every RAM cell outside \<open>0x0100\<close> to \<open>0x01FF\<close>.
\<close>

definition outside_stack_page_unchanged :: "'d memory \<Rightarrow> 'd memory \<Rightarrow> bool" where
  "outside_stack_page_unchanged m m' \<longleftrightarrow>
     m' = m\<lparr>ram := ram m'\<rparr> \<and> (\<forall>a. \<not> stack_page a \<longrightarrow> ram m' a = ram m a)"

text \<open>The stack pointer is an 8-bit value.\<close>

definition stack_pointer_ok :: "'d cpu \<Rightarrow> bool" where
  "stack_pointer_ok s \<longleftrightarrow> 0 \<le> SP s \<and> SP s \<le> 255"

section \<open>Example machines\<close>

text \<open>
  A memory as \<^verbatim>\<open>new Memory(65536)\<close> creates it with the video chip registered, and a
  processor bound to it with a fresh video chip.
\<close>

definition example_memory :: "vic2 memory" where
  "example_memory = connectVIC Memory_new"

definition example_cpu :: "vic2 cpu" where
  "example_cpu = MOS6502_new example_memory VIC2_new"

text \<open>
  The same memory after \<^verbatim>\<open>write(0x0001, 0x33)\<close>, which clears CHAREN, and a video chip
  after \<^verbatim>\<open>write(0xD020, 14)\<close> has reached it.
\<close>

definition charen_off_memory :: "vic2 memory" where
  "charen_off_memory = fst (write example_memory VIC2_new 0x0001 0x33)"

definition border_vic :: vic2 where
  "border_vic = VIC2_write 0xD020 14 VIC2_new"

text \<open>
  Processors in the middle of a program: one at \<open>0x1234\<close> with the carry flag set; one
  whose PC is \<open>0xFFFF\<close> where the ROM holds the byte \<open>0x02\<close>, to which
  \<^verbatim>\<open>buildInstructionTable\<close> assigns no instruction; and one whose RAM holds the
  pointers \<open>0x10FF\<close> at \<open>0x0800\<close> and \<open>0x1100\<close> at \<open>0x0810\<close>.
\<close>

definition running_cpu :: "vic2 cpu" where
  "running_cpu = example_cpu\<lparr>PC := 0x1234, C := True\<rparr>"

definition illegal_cpu :: "vic2 cpu" where
  "illegal_cpu =
     example_cpu\<lparr>memory := example_memory\<lparr>rom := (\<lambda>_. 0)(0xFFFF := 0x02)\<rparr>, PC := 0xFFFF\<rparr>"

definition pointer_cpu :: "vic2 cpu" where
  "pointer_cpu =
     example_cpu
       \<lparr>memory := example_memory
          \<lparr>ram := (\<lambda>_. 0)(0x0800 := 0xFF, 0x0801 := 0x10, 0x10FF := 0x34, 0x1000 := 0x12,
                           0x1100 := 0x56, 0x0810 := 0x00, 0x0811 := 0x11, 0x1101 := 0x78)\<rparr>\<rparr>"

text \<open>
  A processor in the middle of a program with the negative, decimal and carry flags set
  and the stack pointer at 1, on a memory whose ROM holds the three vectors
  \<open>0xFE43\<close> (NMI), \<open>0xFCE2\<close> (reset) and \<open>0xFF48\<close> (IRQ).
\<close>

definition vector_memory :: "vic2 memory" where
  "vector_memory =
     example_memory
       \<lparr>rom := (\<lambda>_. 0)(0xFFFA := 0x43, 0xFFFB := 0xFE, 0xFFFC := 0xE2, 0xFFFD := 0xFC,
                        0xFFFE := 0x48, 0xFFFF := 0xFF)\<rparr>"

definition interrupted_cpu :: "vic2 cpu" where
  "interrupted_cpu =
     example_cpu
       \<lparr>memory := vector_memory, A := 0x11, X := 0x22, Y := 0x33, SP := 0x01, PC := 0x1234,
        N := True, D := True, C := True\<rparr>"

text \<open>
  A memory with a handler registered over the BASIC ROM window whose read callback
  returns \<open>0xFF\<close> and whose write callback ignores the value.
\<close>

definition shadowed_memory :: "vic2 memory" where
  "shadowed_memory =
     setIOHandler 0xA000 0xBFFF (\<lambda>address v. (0xFF, v)) (\<lambda>address val v. v) example_memory"

text \<open>
  A memory with a handler registered over the reset vector whose chip is a counter: each
  read returns the count and adds one to it.  A processor bound to it, the count at 0.
\<close>

definition counting_memory :: "int memory" where
  "counting_memory =
     setIOHandler 0xFFFC 0xFFFD (\<lambda>address n. (n, n + 1)) (\<lambda>address val n. n) Memory_new"

definition counting_cpu :: "int cpu" where
  "counting_cpu = MOS6502_new counting_memory 0"

section \<open>Masks\<close>

lemma and_0xFF: "(x::int) AND 0xFF = x mod 256"
  using take_bit_eq_mask[of 8 x] by (simp add: take_bit_eq_mod mask_eq_exp_minus_1)

lemma and_0xFFFF: "(x::int) AND 0xFFFF = x mod 65536"
  using take_bit_eq_mask[of 16 x] by (simp add: take_bit_eq_mod mask_eq_exp_minus_1)

lemma and_0x0F: "(x::int) AND 0x0F = x mod 16"
  using take_bit_eq_mask[of 4 x] by (simp add: take_bit_eq_mod mask_eq_exp_minus_1)

lemma uint_byte: "0 \<le> v \<Longrightarrow> v \<le> 255 \<Longrightarrow> uint (word_of_int v :: 8 word) = v"
  by (simp add: uint_word_of_int_eq take_bit_int_eq_self)

lemma address_masked: "0 \<le> (a::int) \<Longrightarrow> a \<le> 0xFFFF \<Longrightarrow> a AND 0xFFFF = a"
  by (simp add: and_0xFFFF)

lemma byte_masked: "0 \<le> (v::int) \<Longrightarrow> v \<le> 255 \<Longrightarrow> v AND 0xFF = v"
  by (simp add: and_0xFF)

lemma nibble_of_byte: "((v::int) AND 0xFF) AND 0x0F = v AND 0x0F"
  by (simp add: and.assoc)

lemma nibble_idem: "((v::int) AND 0x0F) AND 0x0F = v AND 0x0F"
  by (simp add: and.assoc)

lemma uint_nibble: "uint (word_of_int (v AND 0x0F) :: 8 word) = v AND 0x0F"
proof (rule uint_byte)
  show "0 \<le> v AND 0x0F" by (simp add: and_0x0F)
  have "v mod 16 < 16" by simp
  then show "v AND 0x0F \<le> 255" by (simp add: and_0x0F)
qed

lemma split_bytes: "(p::int) AND 0xFFFF = (p AND 0xFF00) + (p AND 0xFF)"
proof -
  have "(p AND 0xFF00) AND (p AND 0xFF) = 0"
    by (simp add: and.assoc and.left_commute)
  then have "(p AND 0xFF00) + (p AND 0xFF) = (p AND 0xFF00) OR (p AND 0xFF)"
    by (rule disjunctive_add_eq_or)
  also have "\<dots> = p AND 0xFFFF"
    by (simp flip: bit.conj_disj_distrib)
  finally show ?thesis by simp
qed

lemma page_start:
  assumes "0 \<le> (ptr::int) \<and> ptr \<le> 0xFFFF \<and> ptr AND 0xFF = 0xFF"
  shows "ptr AND 0xFF00 = ptr - 0xFF \<and> ptr AND 0xFF00 \<noteq> (ptr + 1) AND 0xFFFF"
proof -
  from assms have "ptr AND 0xFFFF = ptr" by (simp add: address_masked)
  with split_bytes [of ptr] assms have 1: "ptr AND 0xFF00 = ptr - 0xFF" by simp
  have 2: "ptr - 0xFF \<noteq> (ptr + 1) AND 0xFFFF"
  proof (cases "ptr = 0xFFFF")
    case True
    then show ?thesis by simp
  next
    case False
    with assms have "(ptr + 1) AND 0xFFFF = ptr + 1" by (simp add: address_masked)
    then show ?thesis by simp
  qed
  from 1 2 show ?thesis by simp
qed

lemma dec_dec: "(((x::int) - 1) AND 0xFF) - 1 AND 0xFF = (x - 2) AND 0xFF"
  by (simp add: and_0xFF mod_diff_left_eq)

lemma dec_dec_dec: "(((x::int) - 2) AND 0xFF) - 1 AND 0xFF = (x - 3) AND 0xFF"
  by (simp add: and_0xFF mod_diff_left_eq)

lemma inc_inc: "(((x::int) + 1) AND 0xFF) + 1 AND 0xFF = (x + 2) AND 0xFF"
  unfolding and_0xFF by presburger

lemma inc_inc_inc: "(((x::int) + 2) AND 0xFF) + 1 AND 0xFF = (x + 3) AND 0xFF"
  unfolding and_0xFF by presburger

section \<open>Memory: the branches of read and write\<close>

lemma write_plain:
  assumes "a AND 0xFFFF = a" and "a \<noteq> 1" and "\<not> (0xD800 \<le> a \<and> a \<le> 0xDBFF)"
    and "find_handler (ioHandlers m) a = None"
  shows "write m d a v = (m\<lparr>ram := (ram m)(a := word_of_int (v AND 0xFF))\<rparr>, d)"
  using assms by (auto simp: write_def Let_def)

lemma write_bank:
  "write m d 0x0001 v =
     (m\<lparr>bankConfig := v AND 0xFF, ram := (ram m)(0x0001 := word_of_int (v AND 0xFF))\<rparr>, d)"
  by (simp add: write_def Let_def)

lemma read_plain:
  assumes "a AND 0xFFFF = a" and "\<not> (0xD800 \<le> a \<and> a \<le> 0xDBFF)"
    and "find_handler (ioHandlers m) a = None"
  shows "read m d a =
     (uint (if rom_visible (bankConfig m) a
            then (if 0xD000 \<le> a \<and> a \<le> 0xDFFF then charset m (a - 0xD000) else rom m a)
            else ram m a), d)"
  using assms by (auto simp: read_def rom_visible_def Let_def)

lemma read_handled:
  assumes "a AND 0xFFFF = a" and "\<not> (0xD800 \<le> a \<and> a \<le> 0xDBFF)"
    and "find_handler (ioHandlers m) a = Some h"
  shows "read m d a = readHandler h a d"
  using assms by (auto simp: read_def Let_def)

lemma read_no_handler_chips:
  assumes "find_handler (ioHandlers m) (a AND 0xFFFF) = None"
  shows "snd (read m d a) = d"
  using assms by (auto simp: read_def Let_def)

lemma read16_no_handler_chips:
  assumes "find_handler (ioHandlers m) (a AND 0xFFFF) = None"
    and "find_handler (ioHandlers m) ((a + 1) AND 0xFFFF) = None"
  shows "snd (read16 m d a) = d"
  using read_no_handler_chips [OF assms(1), of d] read_no_handler_chips [OF assms(2), of d]
  by (simp add: read16_def split_beta)

subsection \<open>The example memory\<close>

lemma ioHandlers_example: "ioHandlers example_memory =
   [((0xD000, 0xD3FF), \<lparr>start = 0xD000, endAddr = 0xD3FF, readHandler = VIC2_read, writeHandler = VIC2_write\<rparr>)]"
  by (simp add: example_memory_def connectVIC_def setIOHandler_def Memory_new_def)

lemma example_memory_fields:
  "ram example_memory = (\<lambda>_. 0)" "rom example_memory = (\<lambda>_. 0)"
  "charset example_memory = (\<lambda>_. 0)" "colorRAM example_memory = (\<lambda>_. 14)"
  "bankConfig example_memory = 0x37"
  by (simp_all add: example_memory_def connectVIC_def setIOHandler_def Memory_new_def)

lemma example_no_handler:
  "a < 0xD000 \<or> 0xD3FF < a \<Longrightarrow> find_handler (ioHandlers example_memory) a = None"
  by (auto simp: ioHandlers_example)

lemma example_read_ram:
  assumes "0 \<le> a \<and> a < 0xA000"
  shows "read (example_memory\<lparr>ram := r\<rparr>) d a = (uint (r a), d)"
proof -
  from assms have "a AND 0xFFFF = a" by (simp add: address_masked)
  moreover from assms have "find_handler (ioHandlers (example_memory\<lparr>ram := r\<rparr>)) a = None"
    by (simp add: example_no_handler)
  ultimately show ?thesis using assms by (simp add: read_def Let_def)
qed

lemma charen_off_fields:
  "bankConfig charen_off_memory = 0x33"
  "ioHandlers charen_off_memory = ioHandlers example_memory"
  "charset charen_off_memory = (\<lambda>_. 0)"
  "rom charen_off_memory = (\<lambda>_. 0)"
  by (simp_all add: charen_off_memory_def write_def Let_def)
    (simp_all add: example_memory_def connectVIC_def setIOHandler_def Memory_new_def)

lemma wired_write_ram:
  assumes "ioHandlers m = ioHandlers example_memory" and "1 < a \<and> a < 0xA000"
    and "0 \<le> v \<and> v \<le> 255"
  shows "write m d a v = (m\<lparr>ram := (ram m)(a := word_of_int v)\<rparr>, d)"
proof -
  from assms(2) have a: "a AND 0xFFFF = a" by (simp add: address_masked)
  from assms(1,2) have h: "find_handler (ioHandlers m) a = None"
    by (simp add: example_no_handler)
  from assms(3) have v: "v AND 0xFF = v" by (simp add: byte_masked)
  from write_plain [OF a _ _ h, of d v] assms(2) show ?thesis by (simp add: v)
qed

lemma wired_read_rom:
  assumes "ioHandlers m = ioHandlers example_memory" and "bankConfig m = 0x37"
    and "0xE000 \<le> a \<and> a \<le> 0xFFFF"
  shows "read m d a = (uint (rom m a), d)"
proof -
  from assms(3) have a: "a AND 0xFFFF = a" by (simp add: address_masked)
  from assms(1,3) have h: "find_handler (ioHandlers m) a = None"
    by (simp add: example_no_handler)
  from read_plain [OF a _ h, of d] assms(2,3) show ?thesis by (simp add: rom_visible_def)
qed

lemma vector_memory_fields:
  "ioHandlers vector_memory = ioHandlers example_memory" "bankConfig vector_memory = 0x37"
  "ram vector_memory = (\<lambda>_. 0)"
  "rom vector_memory = (\<lambda>_. 0)(0xFFFA := 0x43, 0xFFFB := 0xFE, 0xFFFC := 0xE2, 0xFFFD := 0xFC,
                        0xFFFE := 0x48, 0xFFFF := 0xFF)"
  by (simp_all add: vector_memory_def example_memory_fields)

lemma example_cpu_fields:
  "memory example_cpu = example_memory" "chips example_cpu = VIC2_new"
  "A example_cpu = 0" "X example_cpu = 0" "Y example_cpu = 0" "SP example_cpu = 0xFD"
  "PC example_cpu = 0" "\<not> N example_cpu" "\<not> V example_cpu" "\<not> B example_cpu"
  "\<not> D example_cpu" "\<not> I example_cpu" "\<not> Z example_cpu" "\<not> C example_cpu"
  "cycles example_cpu = 0" "console example_cpu = []"
  by (simp_all add: example_cpu_def MOS6502_new_def)

lemma interrupted_cpu_fields:
  "memory interrupted_cpu = vector_memory" "chips interrupted_cpu = VIC2_new"
  "A interrupted_cpu = 0x11" "X interrupted_cpu = 0x22" "Y interrupted_cpu = 0x33"
  "SP interrupted_cpu = 0x01" "PC interrupted_cpu = 0x1234"
  "N interrupted_cpu" "\<not> V interrupted_cpu" "\<not> B interrupted_cpu" "D interrupted_cpu"
  "\<not> I interrupted_cpu" "\<not> Z interrupted_cpu" "C interrupted_cpu"
  by (simp_all add: interrupted_cpu_def example_cpu_fields)

section \<open>Bank-switched windows\<close>

text \<open>
  Claim C1, as stated, fails: it has the window \<open>0xD000\<close> to \<open>0xDFFF\<close> show the character
  ROM whenever CHAREN is 0.  With the video chip registered for \<open>0xD000\<close> to \<open>0xD3FF\<close>, as
  \<^verbatim>\<open>connectComponents\<close> registers it, and CHAREN cleared, \<^verbatim>\<open>read(0xD020)\<close> returns the
  border colour register of the chip (14) and not the character ROM cell (0): the loop
  over the I/O handlers comes before the test of the configuration byte.
\<close>

theorem read_charen_counterexample:
  "((0xD000::int) \<le> 0xD020 \<and> (0xD020::int) \<le> 0xDFFF)
   \<and> \<not> ((0xD800::int) \<le> 0xD020 \<and> (0xD020::int) \<le> 0xDBFF)
   \<and> bankConfig charen_off_memory AND 0x04 = 0
   \<and> fst (read charen_off_memory border_vic 0xD020) = 14
   \<and> uint (charset charen_off_memory (0xD020 - 0xD000)) = 0
   \<and> fst (read charen_off_memory border_vic 0xD020)
       \<noteq> uint (charset charen_off_memory (0xD020 - 0xD000))"
proof -
  have c: "bankConfig charen_off_memory = 0x33"
    "ioHandlers charen_off_memory = ioHandlers example_memory"
    "charset charen_off_memory = (\<lambda>_. 0)"
    by (simp_all add: charen_off_memory_def write_def Let_def)
      (simp add: example_memory_def connectVIC_def setIOHandler_def Memory_new_def)
  have r: "read charen_off_memory border_vic 0xD020 = VIC2_read 0xD020 border_vic"
    by (simp add: read_def c ioHandlers_example)
  have v: "VIC2_read 0xD020 border_vic = (14, border_vic)"
    by (simp add: VIC2_read_def border_vic_def VIC2_write_def VIC2_new_def Let_def)
  show ?thesis by (simp add: r v c)
qed

text \<open>
  Claim C1, amended.  For every configuration byte and every address \<open>a\<close> in the three
  switched windows, colour memory excepted: when the range of a registered I/O handler
  contains \<open>a\<close>, \<^verbatim>\<open>read\<close> returns what the read callback of the first such handler
  returns, whatever the configuration byte; otherwise it returns the ROM cell when LORAM
  is 1 and the RAM cell when it is 0 in \<open>0xA000\<close> to \<open>0xBFFF\<close>, the same with HIRAM in
  \<open>0xE000\<close> to \<open>0xFFFF\<close>, and in \<open>0xD000\<close> to \<open>0xDFFF\<close> the character ROM cell
  \<open>a - 0xD000\<close> when CHAREN is 0 and the RAM cell when CHAREN is 1.
\<close>

theorem read_switched_windows:
  assumes "(0xA000 \<le> a \<and> a \<le> 0xBFFF) \<or> (0xD000 \<le> a \<and> a \<le> 0xD7FF)
         \<or> (0xDC00 \<le> a \<and> a \<le> 0xDFFF) \<or> (0xE000 \<le> a \<and> a \<le> 0xFFFF)"
  shows "(\<forall>h. find_handler (ioHandlers m) a = Some h \<longrightarrow> read m d a = readHandler h a d)
       \<and> (find_handler (ioHandlers m) a = None \<longrightarrow>
            (0xA000 \<le> a \<and> a \<le> 0xBFFF \<longrightarrow>
               read m d a = (uint (if bankConfig m AND 0x01 \<noteq> 0 then rom m a else ram m a), d))
          \<and> (0xE000 \<le> a \<and> a \<le> 0xFFFF \<longrightarrow>
               read m d a = (uint (if bankConfig m AND 0x02 \<noteq> 0 then rom m a else ram m a), d))
          \<and> (0xD000 \<le> a \<and> a \<le> 0xDFFF \<longrightarrow>
               read m d a =
                 (uint (if bankConfig m AND 0x04 = 0 then charset m (a - 0xD000) else ram m a), d)))"
proof -
  from assms have a: "a AND 0xFFFF = a" by (auto simp: address_masked)
  from assms have nc: "\<not> (0xD800 \<le> a \<and> a \<le> 0xDBFF)" by auto
  have 1: "\<forall>h. find_handler (ioHandlers m) a = Some h \<longrightarrow> read m d a = readHandler h a d"
    by (intro allI impI) (rule read_handled [OF a nc])
  have 2: "find_handler (ioHandlers m) a = None \<Longrightarrow> 0xA000 \<le> a \<and> a \<le> 0xBFFF \<Longrightarrow>
      read m d a = (uint (if bankConfig m AND 0x01 \<noteq> 0 then rom m a else ram m a), d)"
    using read_plain [OF a nc, of m d] by (simp add: rom_visible_def)
  have 3: "find_handler (ioHandlers m) a = None \<Longrightarrow> 0xE000 \<le> a \<and> a \<le> 0xFFFF \<Longrightarrow>
      read m d a = (uint (if bankConfig m AND 0x02 \<noteq> 0 then rom m a else ram m a), d)"
    using read_plain [OF a nc, of m d] by (simp add: rom_visible_def)
  have 4: "find_handler (ioHandlers m) a = None \<Longrightarrow> 0xD000 \<le> a \<and> a \<le> 0xDFFF \<Longrightarrow>
      read m d a =
        (uint (if bankConfig m AND 0x04 = 0 then charset m (a - 0xD000) else ram m a), d)"
    using read_plain [OF a nc, of m d] by (simp add: rom_visible_def)
  from 1 2 3 4 show ?thesis by blast
qed

theorem read_switched_windows_witness:
  "find_handler (ioHandlers charen_off_memory) 0xD020
     = Some \<lparr>start = 0xD000, endAddr = 0xD3FF, readHandler = VIC2_read, writeHandler = VIC2_write\<rparr>
   \<and> read charen_off_memory border_vic 0xD020 = VIC2_read 0xD020 border_vic
   \<and> find_handler (ioHandlers charen_off_memory) 0xDE00 = None
   \<and> bankConfig charen_off_memory AND 0x04 = 0
   \<and> read charen_off_memory border_vic 0xDE00
       = (uint (charset charen_off_memory (0xDE00 - 0xD000)), border_vic)
   \<and> find_handler (ioHandlers charen_off_memory) 0xA000 = None
   \<and> bankConfig charen_off_memory AND 0x01 \<noteq> 0
   \<and> read charen_off_memory border_vic 0xA000 = (uint (rom charen_off_memory 0xA000), border_vic)"
proof -
  have f1: "find_handler (ioHandlers charen_off_memory) 0xD020
     = Some \<lparr>start = 0xD000, endAddr = 0xD3FF, readHandler = VIC2_read, writeHandler = VIC2_write\<rparr>"
    and f2: "find_handler (ioHandlers charen_off_memory) 0xDE00 = None"
    and f3: "find_handler (ioHandlers charen_off_memory) 0xA000 = None"
    by (simp_all add: charen_off_fields ioHandlers_example)
  have w1: "((0xA000::int) \<le> 0xD020 \<and> (0xD020::int) \<le> 0xBFFF) \<or> ((0xD000::int) \<le> 0xD020 \<and> (0xD020::int) \<le> 0xD7FF)
         \<or> ((0xDC00::int) \<le> 0xD020 \<and> (0xD020::int) \<le> 0xDFFF) \<or> ((0xE000::int) \<le> 0xD020 \<and> (0xD020::int) \<le> 0xFFFF)"
    by simp
  have w2: "((0xA000::int) \<le> 0xDE00 \<and> (0xDE00::int) \<le> 0xBFFF) \<or> ((0xD000::int) \<le> 0xDE00 \<and> (0xDE00::int) \<le> 0xD7FF)
         \<or> ((0xDC00::int) \<le> 0xDE00 \<and> (0xDE00::int) \<le> 0xDFFF) \<or> ((0xE000::int) \<le> 0xDE00 \<and> (0xDE00::int) \<le> 0xFFFF)"
    by simp
  have w3: "((0xA000::int) \<le> 0xA000 \<and> (0xA000::int) \<le> 0xBFFF) \<or> ((0xD000::int) \<le> 0xA000 \<and> (0xA000::int) \<le> 0xD7FF)
         \<or> ((0xDC00::int) \<le> 0xA000 \<and> (0xA000::int) \<le> 0xDFFF) \<or> ((0xE000::int) \<le> 0xA000 \<and> (0xA000::int) \<le> 0xFFFF)"
    by simp
  have b: "bankConfig charen_off_memory AND 0x04 = 0" "bankConfig charen_off_memory AND 0x01 \<noteq> 0"
    by (simp_all add: charen_off_fields)
  from read_switched_windows [OF w1, of charen_off_memory border_vic] f1
  have r1: "read charen_off_memory border_vic 0xD020 = VIC2_read 0xD020 border_vic" by simp
  from read_switched_windows [OF w2, of charen_off_memory border_vic] f2 b
  have r2: "read charen_off_memory border_vic 0xDE00
       = (uint (charset charen_off_memory (0xDE00 - 0xD000)), border_vic)" by simp
  from read_switched_windows [OF w3, of charen_off_memory border_vic] f3 b
  have r3: "read charen_off_memory border_vic 0xA000 = (uint (rom charen_off_memory 0xA000), border_vic)"
    by simp
  from f1 f2 f3 b r1 r2 r3 show ?thesis by blast
qed

section \<open>Writes under ROM\<close>

text \<open>
  Claim C2, as stated, fails for an address that a registered I/O handler claims: the
  loop over the handlers in \<^verbatim>\<open>write\<close> returns before the RAM store.  With a handler
  registered over \<open>0xA000\<close> to \<open>0xBFFF\<close>, \<^verbatim>\<open>write(0xA010, 0x42)\<close> leaves the memory
  object as it was (the RAM cell still holds 0), and after \<^verbatim>\<open>write(0x0001, 0x36)\<close>,
  which clears LORAM, \<^verbatim>\<open>read(0xA010)\<close> returns what the handler returns, \<open>0xFF\<close>.
\<close>

theorem write_rom_handler_counterexample:
  "((0xA000::int) \<le> 0xA010 \<and> (0xA010::int) \<le> 0xBFFF)
   \<and> ((0::int) \<le> 0x42 \<and> (0x42::int) \<le> 255)
   \<and> write shadowed_memory VIC2_new 0xA010 0x42 = (shadowed_memory, VIC2_new)
   \<and> uint (ram (fst (write shadowed_memory VIC2_new 0xA010 0x42)) 0xA010) = 0
   \<and> \<not> rom_visible 0x36 0xA010
   \<and> fst (read (fst (write (fst (write shadowed_memory VIC2_new 0xA010 0x42)) VIC2_new
                       0x0001 0x36)) VIC2_new 0xA010) = 0xFF
   \<and> fst (read (fst (write (fst (write shadowed_memory VIC2_new 0xA010 0x42)) VIC2_new
                       0x0001 0x36)) VIC2_new 0xA010) \<noteq> 0x42"
proof -
  have h: "find_handler (ioHandlers shadowed_memory) 0xA010
      = Some \<lparr>start = 0xA000, endAddr = 0xBFFF, readHandler = (\<lambda>address v. (0xFF, v)),
              writeHandler = (\<lambda>address val v. v)\<rparr>"
    by (simp add: shadowed_memory_def setIOHandler_def ioHandlers_example)
  have r: "ram shadowed_memory = (\<lambda>_. 0)"
    by (simp add: shadowed_memory_def setIOHandler_def example_memory_fields)
  have w: "write shadowed_memory VIC2_new 0xA010 0x42 = (shadowed_memory, VIC2_new)"
    by (simp add: write_def h)
  have b: "write shadowed_memory VIC2_new 0x0001 0x36 =
      (shadowed_memory\<lparr>bankConfig := 0x36, ram := (ram shadowed_memory)(0x0001 := 0x36)\<rparr>,
       VIC2_new)"
    using write_bank [of shadowed_memory VIC2_new "0x36"] by simp
  have "read (shadowed_memory\<lparr>bankConfig := 0x36, ram := (ram shadowed_memory)(0x0001 := 0x36)\<rparr>)
          VIC2_new 0xA010 = (0xFF, VIC2_new)"
    by (simp add: read_def h)
  then show ?thesis by (simp add: w b r rom_visible_def)
qed

text \<open>
  Claim C2, amended.  For every address \<open>a\<close> in \<open>0xA000\<close> to \<open>0xBFFF\<close> or \<open>0xE000\<close> to
  \<open>0xFFFF\<close> that no registered I/O handler range contains, and every 8-bit value \<open>v\<close>:
  \<^verbatim>\<open>write\<close> changes the RAM cell \<open>a\<close> to \<open>v\<close> and nothing else, so the ROM array is the
  same; while ROM is banked in, \<^verbatim>\<open>read\<close> still returns the ROM cell; and after
  \<^verbatim>\<open>write(0x0001, c)\<close> with a byte \<open>c\<close> whose bit for the window is 0, \<^verbatim>\<open>read\<close> returns
  \<open>v\<close>.
\<close>

theorem write_rom_shadowed:
  assumes "(0xA000 \<le> a \<and> a \<le> 0xBFFF) \<or> (0xE000 \<le> a \<and> a \<le> 0xFFFF)"
    and "0 \<le> v \<and> v \<le> 255"
    and "find_handler (ioHandlers m) a = None"
  shows "write m d a v = (m\<lparr>ram := (ram m)(a := word_of_int v)\<rparr>, d)
       \<and> uint (ram (fst (write m d a v)) a) = v
       \<and> rom (fst (write m d a v)) = rom m
       \<and> (rom_visible (bankConfig m) a \<longrightarrow>
            read (fst (write m d a v)) d a = (uint (rom m a), d))
       \<and> (0 \<le> c \<and> c \<le> 255 \<and> \<not> rom_visible c a \<longrightarrow>
            read (fst (write (fst (write m d a v)) d 0x0001 c)) d a = (v, d))"
proof -
  from assms(1) have a: "a AND 0xFFFF = a" by (auto simp: address_masked)
  from assms(1) have nc: "\<not> (0xD800 \<le> a \<and> a \<le> 0xDBFF)" and n1: "a \<noteq> 1"
    and nd: "\<not> (0xD000 \<le> a \<and> a \<le> 0xDFFF)" by auto
  from assms(2) have v: "v AND 0xFF = v" by (simp add: byte_masked)
  from assms(2) have u: "uint (word_of_int v :: 8 word) = v" by (simp add: uint_byte)
  let ?m1 = "m\<lparr>ram := (ram m)(a := word_of_int v)\<rparr>"
  have w: "write m d a v = (?m1, d)"
    using write_plain [OF a n1 nc assms(3), of d v] by (simp add: v)
  have r1: "rom_visible (bankConfig m) a \<Longrightarrow> read ?m1 d a = (uint (rom m a), d)"
    using read_plain [OF a nc, of ?m1 d] assms(3) nd by simp
  have r2: "read (fst (write ?m1 d 0x0001 c)) d a = (v, d)"
    if c: "0 \<le> c \<and> c \<le> 255 \<and> \<not> rom_visible c a"
  proof -
    from c have cm: "c AND 0xFF = c" by (simp add: byte_masked)
    let ?m2 = "?m1\<lparr>bankConfig := c, ram := (ram ?m1)(0x0001 := word_of_int c)\<rparr>"
    have "write ?m1 d 0x0001 c = (?m2, d)"
      using write_bank [of ?m1 d c] by (simp add: cm)
    moreover have "read ?m2 d a = (v, d)"
      using read_plain [OF a nc, of ?m2 d] assms(3) c n1 u by simp
    ultimately show ?thesis by simp
  qed
  show ?thesis using r1 r2 u by (simp add: w)
qed

theorem write_rom_shadowed_witness:
  "(((0xA000::int) \<le> 0xA010 \<and> (0xA010::int) \<le> 0xBFFF) \<or> ((0xE000::int) \<le> 0xA010 \<and> (0xA010::int) \<le> 0xFFFF))
   \<and> ((0::int) \<le> 0x42 \<and> (0x42::int) \<le> 255)
   \<and> find_handler (ioHandlers example_memory) 0xA010 = None
   \<and> rom_visible (bankConfig example_memory) 0xA010
   \<and> read (fst (write example_memory VIC2_new 0xA010 0x42)) VIC2_new 0xA010
       = (uint (rom example_memory 0xA010), VIC2_new)
   \<and> ((0::int) \<le> 0x36 \<and> (0x36::int) \<le> 255 \<and> \<not> rom_visible 0x36 0xA010)
   \<and> read (fst (write (fst (write example_memory VIC2_new 0xA010 0x42)) VIC2_new 0x0001 0x36))
         VIC2_new 0xA010 = (0x42, VIC2_new)"
proof -
  have h1: "((0xA000::int) \<le> 0xA010 \<and> (0xA010::int) \<le> 0xBFFF) \<or> ((0xE000::int) \<le> 0xA010 \<and> (0xA010::int) \<le> 0xFFFF)"
    by simp
  have h2: "(0::int) \<le> 0x42 \<and> (0x42::int) \<le> 255" by simp
  have h3: "find_handler (ioHandlers example_memory) 0xA010 = None"
    by (simp add: ioHandlers_example)
  have b: "bankConfig example_memory = 0x37"
    by (simp add: example_memory_def connectVIC_def setIOHandler_def Memory_new_def)
  have h4: "rom_visible (bankConfig example_memory) 0xA010"
    by (simp add: b rom_visible_def)
  have h5: "(0::int) \<le> 0x36 \<and> (0x36::int) \<le> 255 \<and> \<not> rom_visible 0x36 0xA010"
    by (simp add: rom_visible_def)
  from write_rom_shadowed [OF h1 h2 h3, of VIC2_new "0x36"] h1 h2 h3 h4 h5
  show ?thesis by blast
qed

section \<open>Write, then read\<close>

text \<open>
  Claim C3, as stated, fails in colour memory, which is neither a ROM-visible window nor
  a registered I/O window: after \<^verbatim>\<open>write(0xD800, 0xFF)\<close> on the example memory (CHAREN
  is 1, no handler contains \<open>0xD800\<close>, the configuration byte is unchanged),
  \<^verbatim>\<open>read(0xD800)\<close> returns \<open>0x0F\<close>.
\<close>

theorem write_read_color_counterexample:
  "(0::int) \<le> 0xD800 \<and> (0xD800::int) \<le> 0xFFFF \<and> (0::int) \<le> 0xFF \<and> (0xFF::int) \<le> 255
   \<and> \<not> rom_visible (bankConfig example_memory) 0xD800
   \<and> find_handler (ioHandlers example_memory) 0xD800 = None
   \<and> bankConfig (fst (write example_memory VIC2_new 0xD800 0xFF)) = bankConfig example_memory
   \<and> fst (read (fst (write example_memory VIC2_new 0xD800 0xFF))
              (snd (write example_memory VIC2_new 0xD800 0xFF)) 0xD800) = 0x0F
   \<and> fst (read (fst (write example_memory VIC2_new 0xD800 0xFF))
              (snd (write example_memory VIC2_new 0xD800 0xFF)) 0xD800) \<noteq> 0xFF"
  by (simp add: ioHandlers_example rom_visible_def read_def write_def)
    (simp add: example_memory_def connectVIC_def setIOHandler_def Memory_new_def)

text \<open>
  Claim C3, amended.  For every 16-bit address \<open>a\<close> outside the ROM-visible windows under
  the current configuration byte, outside every registered I/O window and outside colour
  memory \<open>0xD800\<close> to \<open>0xDBFF\<close>, and every 8-bit value \<open>v\<close>: \<^verbatim>\<open>read(a)\<close> after
  \<^verbatim>\<open>write(a, v)\<close> returns \<open>v\<close> and leaves the chips as the write left them; the write
  changes the configuration byte at address 1 only.
\<close>

theorem write_read_roundtrip:
  assumes "0 \<le> a \<and> a \<le> 0xFFFF" and "0 \<le> v \<and> v \<le> 255"
    and "\<not> rom_visible (bankConfig m) a"
    and "find_handler (ioHandlers m) a = None"
    and "\<not> (0xD800 \<le> a \<and> a \<le> 0xDBFF)"
  shows "read (fst (write m d a v)) (snd (write m d a v)) a = (v, d)
       \<and> (a \<noteq> 1 \<longrightarrow> bankConfig (fst (write m d a v)) = bankConfig m)"
proof -
  from assms(1) have a: "a AND 0xFFFF = a" by (simp add: address_masked)
  from assms(2) have v: "v AND 0xFF = v" by (simp add: byte_masked)
  from assms(2) have u: "uint (word_of_int v :: 8 word) = v" by (simp add: uint_byte)
  show ?thesis
  proof (cases "a = 1")
    case True
    have w: "write m d a v = (m\<lparr>bankConfig := v, ram := (ram m)(a := word_of_int v)\<rparr>, d)"
      using True write_bank [of m d v] by (simp add: v)
    have nv: "\<not> rom_visible v a" using True by (simp add: rom_visible_def)
    have "read (m\<lparr>bankConfig := v, ram := (ram m)(a := word_of_int v)\<rparr>) d a = (v, d)"
      using read_plain [OF a assms(5), of "m\<lparr>bankConfig := v, ram := (ram m)(a := word_of_int v)\<rparr>" d]
        assms(4) nv u by simp
    then show ?thesis using True w by simp
  next
    case False
    have w: "write m d a v = (m\<lparr>ram := (ram m)(a := word_of_int v)\<rparr>, d)"
      using write_plain [OF a False assms(5) assms(4), of d v] by (simp add: v)
    have "read (m\<lparr>ram := (ram m)(a := word_of_int v)\<rparr>) d a = (v, d)"
      using read_plain [OF a assms(5), of "m\<lparr>ram := (ram m)(a := word_of_int v)\<rparr>" d]
        assms(3,4) u by simp
    then show ?thesis by (simp add: w)
  qed
qed

theorem write_read_roundtrip_witness:
  "((0::int) \<le> 0x0400 \<and> (0x0400::int) \<le> 0xFFFF) \<and> ((0::int) \<le> 0x42 \<and> (0x42::int) \<le> 255)
   \<and> \<not> rom_visible (bankConfig example_memory) 0x0400
   \<and> find_handler (ioHandlers example_memory) 0x0400 = None
   \<and> \<not> ((0xD800::int) \<le> 0x0400 \<and> (0x0400::int) \<le> 0xDBFF)
   \<and> read (fst (write example_memory VIC2_new 0x0400 0x42))
           (snd (write example_memory VIC2_new 0x0400 0x42)) 0x0400 = (0x42, VIC2_new)"
proof -
  have h1: "(0::int) \<le> 0x0400 \<and> (0x0400::int) \<le> 0xFFFF" by simp
  have h2: "(0::int) \<le> 0x42 \<and> (0x42::int) \<le> 255" by simp
  have h3: "\<not> rom_visible (bankConfig example_memory) 0x0400"
    by (simp add: rom_visible_def)
  have h4: "find_handler (ioHandlers example_memory) 0x0400 = None"
    by (simp add: ioHandlers_example)
  have h5: "\<not> ((0xD800::int) \<le> 0x0400 \<and> (0x0400::int) \<le> 0xDBFF)" by simp
  from write_read_roundtrip [OF h1 h2 h3 h4 h5, of VIC2_new] h3 h4
  show ?thesis by simp
qed

section \<open>Colour memory\<close>

text \<open>
  Claim C8.  For every address \<open>a\<close> in \<open>0xD800\<close> to \<open>0xDBFF\<close> and every value \<open>v\<close>:
  \<^verbatim>\<open>write\<close> stores \<open>v AND 0x0F\<close> in the colour RAM cell \<open>a - 0xD800\<close> and changes nothing
  else; \<^verbatim>\<open>read\<close> returns that cell masked to four bits, a value from 0 to 15, and leaves
  the chips alone; the result of \<^verbatim>\<open>read\<close> does not depend on the registered I/O handlers
  nor on the configuration byte (so not on CHAREN); and reading back after a write gives
  the low four bits of what was written.
\<close>

theorem color_memory:
  assumes "0xD800 \<le> a \<and> a \<le> 0xDBFF"
  shows "write m d a v =
           (m\<lparr>colorRAM := (colorRAM m)(a - 0xD800 := word_of_int (v AND 0x0F))\<rparr>, d)
       \<and> read m d a = (uint (colorRAM m (a - 0xD800)) AND 0x0F, d)
       \<and> read (m\<lparr>ioHandlers := hs, bankConfig := config\<rparr>) d a = read m d a
       \<and> read (fst (write m d a v)) d a = (v AND 0x0F, d)
       \<and> 0 \<le> fst (read m d a) \<and> fst (read m d a) \<le> 15"
proof -
  from assms have a: "a AND 0xFFFF = a" by (simp add: address_masked)
  from assms have ne: "a \<noteq> 1" by simp
  have w: "write m d a v =
           (m\<lparr>colorRAM := (colorRAM m)(a - 0xD800 := word_of_int (v AND 0x0F))\<rparr>, d)"
    using assms ne by (simp add: write_def a nibble_of_byte)
  have r: "\<And>m'. read m' d a = (uint (colorRAM m' (a - 0xD800)) AND 0x0F, d)"
    using assms by (simp add: read_def a)
  have b: "0 \<le> uint (colorRAM m (a - 0xD800)) AND 0x0F \<and> uint (colorRAM m (a - 0xD800)) AND 0x0F \<le> 15"
    by (simp add: and_0x0F)
  show ?thesis
    using b by (simp add: w r uint_nibble nibble_idem)
qed

theorem color_memory_witness:
  "((0xD800::int) \<le> 0xD900 \<and> (0xD900::int) \<le> 0xDBFF)
   \<and> read (fst (write example_memory VIC2_new 0xD900 0xA7)) VIC2_new 0xD900 = (7, VIC2_new)"
proof -
  have h: "(0xD800::int) \<le> 0xD900 \<and> (0xD900::int) \<le> 0xDBFF" by simp
  have "read (fst (write example_memory VIC2_new 0xD900 0xA7)) VIC2_new 0xD900
          = (0xA7 AND 0x0F, VIC2_new)"
    using color_memory [OF h, of example_memory VIC2_new "0xA7"] by blast
  then show ?thesis by simp
qed

section \<open>Processor: memory accesses and the stack\<close>

lemma memory_read_eq:
  "memory_read s a = (fst (read (memory s) (chips s) a), s\<lparr>chips := snd (read (memory s) (chips s) a)\<rparr>)"
  by (simp add: memory_read_def split_beta)

lemma memory_read16_eq:
  "memory_read16 s a =
     (fst (read16 (memory s) (chips s) a), s\<lparr>chips := snd (read16 (memory s) (chips s) a)\<rparr>)"
  by (simp add: memory_read16_def split_beta)

lemma memory_write_eq:
  "memory_write s a v =
     s\<lparr>memory := fst (write (memory s) (chips s) a v), chips := snd (write (memory s) (chips s) a v)\<rparr>"
  by (simp add: memory_write_def split_beta)

lemma push_eq:
  "push s v = (memory_write s (0x0100 + SP s) v)\<lparr>SP := (SP s - 1) AND 0xFF\<rparr>"
  by (simp add: push_def Let_def memory_write_eq)

lemma push_fields:
  "SP (push s v) = (SP s - 1) AND 0xFF" "PC (push s v) = PC s" "A (push s v) = A s"
  "X (push s v) = X s" "Y (push s v) = Y s"
  "N (push s v) = N s" "V (push s v) = V s" "B (push s v) = B s" "D (push s v) = D s"
  "I (push s v) = I s" "Z (push s v) = Z s" "C (push s v) = C s"
  "cycles (push s v) = cycles s" "console (push s v) = console s"
  by (simp_all add: push_eq memory_write_eq)

lemma getP_push: "getP (push s v) = getP s"
  by (simp add: getP_def push_fields)

lemma getP_reserved: "getP s OR 0x20 = getP s \<and> getP s AND 0x20 = 0x20"
  by (simp add: getP_def Let_def)

lemma getP_status_byte: "getP s = status_byte s"
  by (simp add: getP_def status_byte_def Let_def)

lemma interrupt_eq:
  "(let s1 = push16 s (PC s); s2 = push s1 (getP s1 OR 0x20); s3 = s2\<lparr>I := True\<rparr>
    in case memory_read16 s3 vector of (pc, s4) \<Rightarrow> s4\<lparr>PC := pc\<rparr>)
   = spec_interrupt_sequence vector s"
proof -
  let ?s1 = "memory_write s (0x0100 + SP s) (drop_bit 8 (PC s) AND 0xFF)"
  let ?s2 = "memory_write ?s1 (0x0100 + ((SP s - 1) AND 0xFF)) (PC s AND 0xFF)"
  let ?s3 = "memory_write ?s2 (0x0100 + ((SP s - 2) AND 0xFF)) (getP s OR 0x20)"
  have p1: "push s (drop_bit 8 (PC s) AND 0xFF) = ?s1\<lparr>SP := (SP s - 1) AND 0xFF\<rparr>"
    by (simp add: push_eq)
  have p2: "push16 s (PC s) = ?s2\<lparr>SP := (SP s - 2) AND 0xFF\<rparr>"
    by (simp add: push16_def p1) (simp add: push_eq memory_write_eq dec_dec)
  have g: "getP (push16 s (PC s)) = getP s"
    by (simp add: push16_def getP_push)
  have p3: "push (push16 s (PC s)) (getP s OR 0x20) = ?s3\<lparr>SP := (SP s - 3) AND 0xFF\<rparr>"
    by (simp add: p2) (simp add: push_eq memory_write_eq dec_dec_dec)
  have q: "getP s OR 0x20 = status_byte s"
    using getP_reserved [of s] by (simp add: getP_status_byte)
  have "(let s1 = push16 s (PC s); s2 = push s1 (getP s1 OR 0x20); s3 = s2\<lparr>I := True\<rparr>
    in case memory_read16 s3 vector of (pc, s4) \<Rightarrow> s4\<lparr>PC := pc\<rparr>)
    = (case memory_read16 (?s3\<lparr>SP := (SP s - 3) AND 0xFF, I := True\<rparr>) vector of
         (pc, s4) \<Rightarrow> s4\<lparr>PC := pc\<rparr>)"
    by (simp add: Let_def g p3)
  also have "\<dots> = spec_interrupt_sequence vector s"
    by (simp add: spec_interrupt_sequence_def Let_def memory_read16_eq read16_def split_beta
        q drop_bit_eq_div and_0xFF memory_write_eq)
  finally show ?thesis .
qed

lemma irq_eq: "irq s = (if I s then s else spec_interrupt_sequence 0xFFFE s)"
  using interrupt_eq [of s "0xFFFE"] by (simp add: irq_def)

lemma nmi_eq: "nmi s = spec_interrupt_sequence 0xFFFA s"
  using interrupt_eq [of s "0xFFFA"] by (simp add: nmi_def)

lemma reset_eq:
  "reset s = s\<lparr>chips := snd (read16 (memory s) (chips s) 0xFFFC),
               PC := fst (read16 (memory s) (chips s) 0xFFFC), SP := 0xFD, A := 0, X := 0, Y := 0,
               I := True,
               console := console s @ [CPU_Reset (fst (read16 (memory s) (chips s) 0xFFFC))]\<rparr>"
  by (simp add: reset_def memory_read16_eq)

lemma instructions_unassigned:
  assumes "0 \<le> opcode \<and> opcode \<le> 255"
    and "map_of (assigned :: (int \<times> ('d cpu \<Rightarrow> int \<times> 'd cpu)) list) opcode = None"
  shows "instructions opcode = Some (illegal_opcode opcode :: 'd cpu \<Rightarrow> int \<times> 'd cpu)"
  using assms by (simp add: instructions_def)

lemma assigned_0x02: "map_of (assigned :: (int \<times> ('d cpu \<Rightarrow> int \<times> 'd cpu)) list) 0x02 = None"
  by (simp add: assigned_def)

lemma outside_refl: "outside_stack_page_unchanged m m"
  by (simp add: outside_stack_page_unchanged_def)

lemma outside_trans:
  assumes "outside_stack_page_unchanged m m1" and "outside_stack_page_unchanged m1 m2"
  shows "outside_stack_page_unchanged m m2"
proof -
  from assms have 1: "m1 = m\<lparr>ram := ram m1\<rparr>" and 2: "m2 = m1\<lparr>ram := ram m2\<rparr>"
    and 3: "\<forall>a. \<not> stack_page a \<longrightarrow> ram m2 a = ram m a"
    by (simp_all add: outside_stack_page_unchanged_def)
  from 1 2 have "m2 = m\<lparr>ram := ram m2\<rparr>"
    by (metis (no_types) memory.surjective memory.update_convs(1))
  with 3 show ?thesis by (simp add: outside_stack_page_unchanged_def)
qed

lemma write_stack_page:
  assumes "stack_page a"
  shows "outside_stack_page_unchanged m (fst (write m d a v))"
proof -
  from assms have a: "a AND 0xFFFF = a" and n1: "a \<noteq> 1" and nc: "\<not> (0xD800 \<le> a \<and> a \<le> 0xDBFF)"
    by (simp_all add: stack_page_def address_masked)
  show ?thesis
  proof (cases "find_handler (ioHandlers m) a")
    case None
    from write_plain [OF a n1 nc None, of d v] assms show ?thesis
      by (simp add: outside_stack_page_unchanged_def)
  next
    case (Some h)
    with a n1 nc have "write m d a v = (m, writeHandler h a (v AND 0xFF) d)"
      by (auto simp: write_def Let_def)
    then show ?thesis by (simp add: outside_refl)
  qed
qed

lemma stack_page_mod: "stack_page (0x0100 + x mod 256)"
proof -
  have "0 \<le> x mod 256" "x mod 256 < 256" by simp_all
  then show ?thesis by (simp add: stack_page_def)
qed

lemma stack_page_and: "stack_page (0x0100 + (x AND 0xFF))"
  using stack_page_mod [of x] by (simp add: and_0xFF)

lemma push_memory:
  assumes "stack_page (0x0100 + SP s)"
  shows "outside_stack_page_unchanged (memory s) (memory (push s v))"
  using write_stack_page [OF assms, of "memory s" "chips s" v]
  by (simp add: push_eq memory_write_eq)

lemma push_SP_range: "0 \<le> SP (push s v) \<and> SP (push s v) \<le> 255"
proof -
  have "0 \<le> (SP s - 1) mod 256" "(SP s - 1) mod 256 < 256" by simp_all
  then show ?thesis by (simp add: push_fields and_0xFF)
qed

lemma push_stack_page_next: "stack_page (0x0100 + SP (push s v))"
  using push_SP_range [of s v] by (simp add: stack_page_def)

lemma push16_memory:
  assumes "stack_page (0x0100 + SP s)"
  shows "outside_stack_page_unchanged (memory s) (memory (push16 s w))"
  unfolding push16_def
  by (rule outside_trans [OF push_memory [OF assms] push_memory [OF push_stack_page_next]])

lemma push16_SP: "SP (push16 s w) = (SP s - 2) AND 0xFF"
  by (simp add: push16_def push_fields dec_dec)

lemma pull_eq:
  "pull s = memory_read (s\<lparr>SP := (SP s + 1) AND 0xFF\<rparr>) (0x0100 + ((SP s + 1) AND 0xFF))"
  by (simp add: pull_def Let_def)

lemma pull_fields:
  "SP (snd (pull s)) = (SP s + 1) AND 0xFF" "memory (snd (pull s)) = memory s"
  by (simp_all add: pull_eq memory_read_eq)

lemma pull16_fields:
  "SP (snd (pull16 s)) = (SP s + 2) AND 0xFF" "memory (snd (pull16 s)) = memory s"
  by (simp_all add: pull16_def split_beta pull_fields inc_inc)

lemma pull16_eq:
  "pull16 s =
     (case memory_read (s\<lparr>SP := (SP s + 1) AND 0xFF\<rparr>) (0x0100 + ((SP s + 1) AND 0xFF)) of
        (lo, s1) \<Rightarrow>
      case memory_read (s1\<lparr>SP := (SP s + 2) AND 0xFF\<rparr>) (0x0100 + ((SP s + 2) AND 0xFF)) of
        (hi, s2) \<Rightarrow> (push_bit 8 hi OR lo, s2))"
  by (simp add: pull16_def pull_eq memory_read_eq split_beta inc_inc)

lemma push16_eq:
  "push16 s w =
     (memory_write (memory_write s (0x0100 + SP s) (drop_bit 8 w AND 0xFF))
        (0x0100 + ((SP s - 1) AND 0xFF)) (w AND 0xFF))\<lparr>SP := (SP s - 2) AND 0xFF\<rparr>"
  by (simp add: push16_def push_eq memory_write_eq dec_dec)

lemma absolute_fields:
  "SP (snd (absolute s)) = SP s" "memory (snd (absolute s)) = memory s"
  by (simp_all add: absolute_def memory_read16_eq)

lemma spec_interrupt_fields:
  "SP (spec_interrupt_sequence vector s) = (SP s - 3) AND 0xFF"
  "I (spec_interrupt_sequence vector s)"
  "PC (spec_interrupt_sequence vector s) =
     fst (memory_read16 ((push (push16 s (PC s)) (getP s OR 0x20))\<lparr>I := True\<rparr>) vector)"
  "memory (spec_interrupt_sequence vector s) = memory (push (push16 s (PC s)) (getP s OR 0x20))"
proof -
  have g: "getP (push16 s (PC s)) = getP s"
    by (simp add: push16_def getP_push)
  have e: "spec_interrupt_sequence vector s =
     (case memory_read16 ((push (push16 s (PC s)) (getP s OR 0x20))\<lparr>I := True\<rparr>) vector of
        (pc, s4) \<Rightarrow> s4\<lparr>PC := pc\<rparr>)"
    using interrupt_eq [of s vector] by (simp add: Let_def g)
  show "SP (spec_interrupt_sequence vector s) = (SP s - 3) AND 0xFF"
    by (simp add: e memory_read16_eq push_fields push16_SP dec_dec_dec)
  show "I (spec_interrupt_sequence vector s)"
    by (simp add: e memory_read16_eq)
  show "PC (spec_interrupt_sequence vector s) =
     fst (memory_read16 ((push (push16 s (PC s)) (getP s OR 0x20))\<lparr>I := True\<rparr>) vector)"
    by (simp add: e memory_read16_eq)
  show "memory (spec_interrupt_sequence vector s) = memory (push (push16 s (PC s)) (getP s OR 0x20))"
    by (simp add: e memory_read16_eq)
qed

lemma interrupt_memory:
  assumes "stack_page (0x0100 + SP s)"
  shows "outside_stack_page_unchanged (memory s) (memory (spec_interrupt_sequence vector s))"
  unfolding spec_interrupt_fields
  by (rule outside_trans [OF push16_memory [OF assms] push_memory [OF]])
    (simp add: push16_SP stack_page_and)

lemma ok_mod: "SP s' = x mod 256 \<Longrightarrow> stack_pointer_ok s'"
proof -
  assume a: "SP s' = x mod 256"
  have "0 \<le> x mod 256" "x mod 256 < 256" by simp_all
  with a show ?thesis by (simp add: stack_pointer_ok_def)
qed

lemma setP_fields: "SP (setP s p) = SP s" "memory (setP s p) = memory s"
  by (simp_all add: setP_def)

lemma setNZ_fields: "SP (setNZ s v) = SP s" "memory (setNZ s v) = memory s" "A (setNZ s v) = A s"
  by (simp_all add: setNZ_def)

section \<open>Indirect addressing\<close>

text \<open>
  Claim C4.  Let \<open>ptr\<close> be the pointer that \<^verbatim>\<open>indirect\<close> reads at PC.  The resolved
  address is the byte at \<open>ptr\<close> as low byte and, as high byte, the byte at
  \<open>ptr AND 0xFF00\<close> when the low byte of \<open>ptr\<close> is \<open>0xFF\<close> and the byte at \<open>ptr + 1\<close>
  otherwise; PC has advanced by 2 modulo 65536.  For a 16-bit \<open>ptr\<close> with low byte
  \<open>0xFF\<close>, \<open>ptr AND 0xFF00\<close> is \<open>ptr - 0xFF\<close>, the start of the page of \<open>ptr\<close>, and is not
  the address after \<open>ptr\<close>.
\<close>

theorem indirect_page_wrap:
  assumes "read16 (memory s) (chips s) (PC s) = (ptr, d)"
  shows "indirect s =
           (let s1 = s\<lparr>chips := d, PC := (PC s + 2) AND 0xFFFF\<rparr> in
            case memory_read s1 ptr of (lo, s2) \<Rightarrow>
            case memory_read s2 (if ptr AND 0xFF = 0xFF then ptr AND 0xFF00 else ptr + 1) of
              (hi, s3) \<Rightarrow> (lo OR push_bit 8 hi, s3))
       \<and> (0 \<le> ptr \<and> ptr \<le> 0xFFFF \<and> ptr AND 0xFF = 0xFF \<longrightarrow>
            ptr AND 0xFF00 = ptr - 0xFF \<and> ptr AND 0xFF00 \<noteq> (ptr + 1) AND 0xFFFF)"
proof -
  let ?s1 = "s\<lparr>chips := d, PC := (PC s + 2) AND 0xFFFF\<rparr>"
  have i: "indirect s =
     (if ptr AND 0xFF = 0xFF then
        (case memory_read ?s1 ptr of (lo, s3) \<Rightarrow>
         case memory_read s3 (ptr AND 0xFF00) of (hi, s4) \<Rightarrow> (push_bit 8 hi OR lo, s4))
      else memory_read16 ?s1 ptr)"
    using assms by (simp add: indirect_def memory_read16_eq Let_def)
  have r: "memory_read16 ?s1 ptr =
       (case memory_read ?s1 ptr of (lo, s2) \<Rightarrow>
        case memory_read s2 (ptr + 1) of (hi, s3) \<Rightarrow> (lo OR push_bit 8 hi, s3))"
    by (simp add: memory_read16_eq memory_read_eq read16_def split_beta)
  have 1: "indirect s =
           (let s1 = ?s1 in
            case memory_read s1 ptr of (lo, s2) \<Rightarrow>
            case memory_read s2 (if ptr AND 0xFF = 0xFF then ptr AND 0xFF00 else ptr + 1) of
              (hi, s3) \<Rightarrow> (lo OR push_bit 8 hi, s3))"
  proof (cases "ptr AND 0xFF = 0xFF")
    case True
    with i show ?thesis by (simp add: Let_def or.commute)
  next
    case False
    with i r show ?thesis by (simp add: Let_def)
  qed
  have 2: "ptr AND 0xFF00 = ptr - 0xFF \<and> ptr AND 0xFF00 \<noteq> (ptr + 1) AND 0xFFFF"
    if "0 \<le> ptr \<and> ptr \<le> 0xFFFF \<and> ptr AND 0xFF = 0xFF"
    using page_start [OF that] .
  from 1 2 show ?thesis by blast
qed

theorem indirect_page_wrap_witness:
  "read16 (memory (pointer_cpu\<lparr>PC := 0x0800\<rparr>)) (chips (pointer_cpu\<lparr>PC := 0x0800\<rparr>))
       (PC (pointer_cpu\<lparr>PC := 0x0800\<rparr>)) = (0x10FF, VIC2_new)
   \<and> ((0::int) \<le> 0x10FF \<and> (0x10FF::int) \<le> 0xFFFF \<and> (0x10FF::int) AND 0xFF = 0xFF)
   \<and> fst (indirect (pointer_cpu\<lparr>PC := 0x0800\<rparr>)) = 0x1234
   \<and> read16 (memory (pointer_cpu\<lparr>PC := 0x0810\<rparr>)) (chips (pointer_cpu\<lparr>PC := 0x0810\<rparr>))
       (PC (pointer_cpu\<lparr>PC := 0x0810\<rparr>)) = (0x1100, VIC2_new)
   \<and> fst (indirect (pointer_cpu\<lparr>PC := 0x0810\<rparr>)) = 0x7856"
proof -
  let ?r = "(\<lambda>_. 0)(0x0800 := 0xFF, 0x0801 := 0x10, 0x10FF := 0x34, 0x1000 := 0x12,
                           0x1100 := 0x56, 0x0810 := 0x00, 0x0811 := 0x11, 0x1101 := 0x78) :: uint8array"
  have f: "memory (pointer_cpu\<lparr>PC := pc\<rparr>) = example_memory\<lparr>ram := ?r\<rparr>"
    "chips (pointer_cpu\<lparr>PC := pc\<rparr>) = VIC2_new" "PC (pointer_cpu\<lparr>PC := pc\<rparr>) = pc" for pc
    by (simp_all add: pointer_cpu_def example_cpu_fields)
  have g: "memory pointer_cpu = example_memory\<lparr>ram := ?r\<rparr>" "chips pointer_cpu = VIC2_new"
    by (simp_all add: pointer_cpu_def example_cpu_fields)
  have h1: "read16 (memory (pointer_cpu\<lparr>PC := 0x0800\<rparr>)) (chips (pointer_cpu\<lparr>PC := 0x0800\<rparr>))
       (PC (pointer_cpu\<lparr>PC := 0x0800\<rparr>)) = (0x10FF, VIC2_new)"
    by (simp add: f read16_def example_read_ram)
  have h2: "read16 (memory (pointer_cpu\<lparr>PC := 0x0810\<rparr>)) (chips (pointer_cpu\<lparr>PC := 0x0810\<rparr>))
       (PC (pointer_cpu\<lparr>PC := 0x0810\<rparr>)) = (0x1100, VIC2_new)"
    by (simp add: f read16_def example_read_ram)
  have h3: "(0::int) \<le> 0x10FF \<and> (0x10FF::int) \<le> 0xFFFF \<and> (0x10FF::int) AND 0xFF = 0xFF"
    by simp
  from indirect_page_wrap [OF h1]
  have 1: "fst (indirect (pointer_cpu\<lparr>PC := 0x0800\<rparr>)) = 0x1234"
    by (simp add: Let_def memory_read_eq g example_read_ram)
  from indirect_page_wrap [OF h2]
  have 2: "fst (indirect (pointer_cpu\<lparr>PC := 0x0810\<rparr>)) = 0x7856"
    by (simp add: Let_def memory_read_eq g example_read_ram)
  from h1 h2 h3 1 2 show ?thesis by blast
qed

section \<open>Interrupts\<close>

text \<open>
  Claim C5.  With the interrupt-disable flag set, \<^verbatim>\<open>irq\<close> returns the state it was
  given.  With the flag clear it stores the high byte of PC at \<open>0x0100 + SP\<close>, the low byte
  of PC at the stack address below and the status byte at the one below that, moves SP
  down by three modulo 256, sets the flag and loads PC from the bytes at \<open>0xFFFE\<close> (low)
  and \<open>0xFFFF\<close> (high).  \<^verbatim>\<open>nmi\<close> does the same with the bytes at \<open>0xFFFA\<close> and
  \<open>0xFFFB\<close>, whatever the flag.  The byte that is pushed, \<^verbatim>\<open>getP() | 0x20\<close>, is the
  status byte: each flag at its bit and the reserved bit \<open>0x20\<close> set.
\<close>

theorem irq_nmi_sequence:
  "(I s \<longrightarrow> irq s = s)
   \<and> (\<not> I s \<longrightarrow> irq s = spec_interrupt_sequence 0xFFFE s)
   \<and> nmi s = spec_interrupt_sequence 0xFFFA s
   \<and> getP s OR 0x20 = status_byte s
   \<and> status_byte s AND 0x20 = 0x20"
  using getP_reserved [of s] by (simp add: irq_eq nmi_eq getP_status_byte)

theorem irq_nmi_sequence_witness:
  "\<not> I interrupted_cpu
   \<and> irq interrupted_cpu =
       interrupted_cpu
         \<lparr>memory := vector_memory
            \<lparr>ram := (\<lambda>_. 0)(0x0101 := 0x12, 0x0100 := 0x34, 0x01FF := 0xA9)\<rparr>,
          SP := 0xFE, I := True, PC := 0xFF48\<rparr>
   \<and> nmi interrupted_cpu =
       interrupted_cpu
         \<lparr>memory := vector_memory
            \<lparr>ram := (\<lambda>_. 0)(0x0101 := 0x12, 0x0100 := 0x34, 0x01FF := 0xA9)\<rparr>,
          SP := 0xFE, I := True, PC := 0xFE43\<rparr>
   \<and> I (interrupted_cpu\<lparr>I := True\<rparr>)
   \<and> irq (interrupted_cpu\<lparr>I := True\<rparr>) = interrupted_cpu\<lparr>I := True\<rparr>
   \<and> nmi (interrupted_cpu\<lparr>I := True\<rparr>) =
       interrupted_cpu
         \<lparr>memory := vector_memory
            \<lparr>ram := (\<lambda>_. 0)(0x0101 := 0x12, 0x0100 := 0x34, 0x01FF := 0xAD)\<rparr>,
          SP := 0xFE, I := True, PC := 0xFE43\<rparr>"
proof -
  have i: "\<not> I interrupted_cpu" by (simp add: interrupted_cpu_fields)
  have j: "I (interrupted_cpu\<lparr>I := True\<rparr>)" by simp
  note t1 = irq_nmi_sequence [of interrupted_cpu]
  note t2 = irq_nmi_sequence [of "interrupted_cpu\<lparr>I := True\<rparr>"]
  from t1 i have e: "irq interrupted_cpu = spec_interrupt_sequence 0xFFFE interrupted_cpu"
    by blast
  from t1 have n: "nmi interrupted_cpu = spec_interrupt_sequence 0xFFFA interrupted_cpu"
    by blast
  from t2 j have k: "irq (interrupted_cpu\<lparr>I := True\<rparr>) = interrupted_cpu\<lparr>I := True\<rparr>"
    by blast
  from t2 have l: "nmi (interrupted_cpu\<lparr>I := True\<rparr>)
      = spec_interrupt_sequence 0xFFFA (interrupted_cpu\<lparr>I := True\<rparr>)"
    by blast
  have c: "interrupted_cpu\<lparr>chips := VIC2_new\<rparr> = interrupted_cpu"
    by (simp add: interrupted_cpu_def example_cpu_def MOS6502_new_def)
  have u: "interrupted_cpu\<lparr>I := False\<rparr> = interrupted_cpu"
    by (simp add: interrupted_cpu_def example_cpu_def MOS6502_new_def)
  have p: "status_byte interrupted_cpu = 0xA9"
    "status_byte (interrupted_cpu\<lparr>I := True\<rparr>) = 0xAD"
    by (simp_all add: status_byte_def interrupted_cpu_fields)
  have v: "spec_interrupt_sequence vector (interrupted_cpu\<lparr>I := f\<rparr>) =
     interrupted_cpu
       \<lparr>memory := vector_memory
          \<lparr>ram := (\<lambda>_. 0)(0x0101 := 0x12, 0x0100 := 0x34,
                           0x01FF := word_of_int (status_byte (interrupted_cpu\<lparr>I := f\<rparr>)))\<rparr>,
        SP := 0xFE, I := True,
        PC := uint (rom vector_memory vector)
              OR push_bit 8 (uint (rom vector_memory (vector + 1)))\<rparr>"
    if "0xE000 \<le> vector \<and> vector + 1 \<le> 0xFFFF"
      and "0 \<le> status_byte (interrupted_cpu\<lparr>I := f\<rparr>)
           \<and> status_byte (interrupted_cpu\<lparr>I := f\<rparr>) \<le> 255"
    for vector f
  proof -
    have "spec_interrupt_sequence vector (interrupted_cpu\<lparr>I := f\<rparr>) =
       interrupted_cpu
         \<lparr>memory := vector_memory
            \<lparr>ram := (\<lambda>_. 0)(0x0101 := 0x12, 0x0100 := 0x34,
                             0x01FF := word_of_int (status_byte (interrupted_cpu\<lparr>I := f\<rparr>)))\<rparr>,
          chips := VIC2_new, SP := 0xFE, I := True,
          PC := uint (rom vector_memory vector)
                OR push_bit 8 (uint (rom vector_memory (vector + 1)))\<rparr>"
      using that
      by (simp add: spec_interrupt_sequence_def Let_def memory_write_eq interrupted_cpu_fields
          wired_write_ram wired_read_rom vector_memory_fields)
    also have "\<dots> =
       (interrupted_cpu\<lparr>chips := VIC2_new\<rparr>)
         \<lparr>memory := vector_memory
            \<lparr>ram := (\<lambda>_. 0)(0x0101 := 0x12, 0x0100 := 0x34,
                             0x01FF := word_of_int (status_byte (interrupted_cpu\<lparr>I := f\<rparr>)))\<rparr>,
          SP := 0xFE, I := True,
          PC := uint (rom vector_memory vector)
                OR push_bit 8 (uint (rom vector_memory (vector + 1)))\<rparr>"
      by simp
    finally show ?thesis by (simp only: c)
  qed
  have 1: "irq interrupted_cpu =
       interrupted_cpu
         \<lparr>memory := vector_memory
            \<lparr>ram := (\<lambda>_. 0)(0x0101 := 0x12, 0x0100 := 0x34, 0x01FF := 0xA9)\<rparr>,
          SP := 0xFE, I := True, PC := 0xFF48\<rparr>"
    using v [of "0xFFFE" False] by (simp add: e u p vector_memory_fields)
  have 2: "nmi interrupted_cpu =
       interrupted_cpu
         \<lparr>memory := vector_memory
            \<lparr>ram := (\<lambda>_. 0)(0x0101 := 0x12, 0x0100 := 0x34, 0x01FF := 0xA9)\<rparr>,
          SP := 0xFE, I := True, PC := 0xFE43\<rparr>"
    using v [of "0xFFFA" False] by (simp add: n u p vector_memory_fields)
  have 3: "nmi (interrupted_cpu\<lparr>I := True\<rparr>) =
       interrupted_cpu
         \<lparr>memory := vector_memory
            \<lparr>ram := (\<lambda>_. 0)(0x0101 := 0x12, 0x0100 := 0x34, 0x01FF := 0xAD)\<rparr>,
          SP := 0xFE, I := True, PC := 0xFE43\<rparr>"
    using v [of "0xFFFA" True] by (simp add: l p vector_memory_fields)
  from i j k 1 2 3 show ?thesis by blast
qed

section \<open>Reset\<close>

text \<open>
  Claim C6, as stated, fails when a registered I/O handler serves the reset vector, for
  a read callback may change its chip: with a counting chip registered over \<open>0xFFFC\<close> to
  \<open>0xFFFD\<close>, the first \<^verbatim>\<open>reset\<close> loads PC with \<open>0x0100\<close> (the counts 0 and 1) and the
  second with \<open>0x0302\<close> (the counts 2 and 3).
\<close>

theorem reset_counting_counterexample:
  "PC (reset counting_cpu) = 0x0100
   \<and> PC (reset (reset counting_cpu)) = 0x0302
   \<and> registers_flags (reset (reset counting_cpu)) \<noteq> registers_flags (reset counting_cpu)"
proof -
  have h: "ioHandlers counting_memory =
      [((0xFFFC, 0xFFFD),
        \<lparr>start = 0xFFFC, endAddr = 0xFFFD, readHandler = (\<lambda>address n. (n, n + 1)),
         writeHandler = (\<lambda>address val n. n)\<rparr>)]"
    by (simp add: counting_memory_def setIOHandler_def Memory_new_def)
  have r: "read16 counting_memory n 0xFFFC = (n OR push_bit 8 (n + 1), n + 2)" for n
    by (simp add: read16_def read_def h)
  have f: "memory counting_cpu = counting_memory" "chips counting_cpu = 0"
    by (simp_all add: counting_cpu_def MOS6502_new_def)
  have 1: "PC (reset counting_cpu) = 0x0100" "chips (reset counting_cpu) = 2"
    "memory (reset counting_cpu) = counting_memory"
    by (simp_all add: reset_eq f r)
  have 2: "PC (reset (reset counting_cpu)) = 0x0302"
    by (simp add: reset_eq [of "reset counting_cpu"] 1 r)
  from 1 2 show ?thesis by (simp add: registers_flags_def)
qed

text \<open>
  Claim C6, amended.  For every prior processor state and memory contents, \<^verbatim>\<open>reset\<close>
  sets PC to the 16-bit value read at \<open>0xFFFC\<close>, SP to \<open>0xFD\<close>, A, X and Y to 0 and the
  interrupt-disable flag to true; it leaves the other six flags and the memory object as
  they were.  When no registered I/O handler range contains \<open>0xFFFC\<close> or \<open>0xFFFD\<close>, the
  new PC is the byte at \<open>0xFFFC\<close> as low byte and the byte at \<open>0xFFFD\<close> as high byte, of
  the ROM when HIRAM is 1 and of the RAM when it is 0; the chips are left alone; and a
  second \<^verbatim>\<open>reset\<close> gives the same registers and flags and the same memory as the first.
\<close>

theorem reset_idempotent:
  "PC (reset s) = fst (read16 (memory s) (chips s) 0xFFFC)
   \<and> SP (reset s) = 0xFD \<and> A (reset s) = 0 \<and> X (reset s) = 0 \<and> Y (reset s) = 0 \<and> I (reset s)
   \<and> N (reset s) = N s \<and> V (reset s) = V s \<and> B (reset s) = B s \<and> D (reset s) = D s
   \<and> Z (reset s) = Z s \<and> C (reset s) = C s
   \<and> memory (reset s) = memory s
   \<and> (find_handler (ioHandlers (memory s)) 0xFFFC = None
        \<and> find_handler (ioHandlers (memory s)) 0xFFFD = None \<longrightarrow>
      PC (reset s) =
        uint ((if bankConfig (memory s) AND 0x02 \<noteq> 0 then rom (memory s) else ram (memory s))
                0xFFFC)
        OR push_bit 8
             (uint ((if bankConfig (memory s) AND 0x02 \<noteq> 0 then rom (memory s)
                     else ram (memory s)) 0xFFFD))
      \<and> chips (reset s) = chips s
      \<and> registers_flags (reset (reset s)) = registers_flags (reset s)
      \<and> memory (reset (reset s)) = memory (reset s))"
proof -
  have c: "chips (reset s) = chips s"
    if "find_handler (ioHandlers (memory s)) 0xFFFC = None"
      and "find_handler (ioHandlers (memory s)) 0xFFFD = None"
    using read16_no_handler_chips [of "memory s" "0xFFFC" "chips s"] that
    by (simp add: reset_eq)
  have v: "read (memory s) d a =
      (uint ((if bankConfig (memory s) AND 0x02 \<noteq> 0 then rom (memory s) else ram (memory s)) a), d)"
    if "a = 0xFFFC \<or> a = 0xFFFD" and "find_handler (ioHandlers (memory s)) a = None" for a d
    using that read_plain [of a "memory s" d] by (auto simp: rom_visible_def)
  have p: "PC (reset s) =
        uint ((if bankConfig (memory s) AND 0x02 \<noteq> 0 then rom (memory s) else ram (memory s))
                0xFFFC)
        OR push_bit 8
             (uint ((if bankConfig (memory s) AND 0x02 \<noteq> 0 then rom (memory s)
                     else ram (memory s)) 0xFFFD))"
    if "find_handler (ioHandlers (memory s)) 0xFFFC = None"
      and "find_handler (ioHandlers (memory s)) 0xFFFD = None"
    using v [of "0xFFFC" "chips s"] v [of "0xFFFD" "chips s"] that
    by (simp add: reset_eq read16_def)
  have m: "memory (reset s) = memory s" for s :: "'a cpu" by (simp add: reset_eq)
  have r: "registers_flags (reset (reset s)) = registers_flags (reset s)"
    if "chips (reset s) = chips s"
    using that by (simp add: registers_flags_def reset_eq [of "reset s"] m) (simp add: reset_eq)
  have u: "PC (reset s) = fst (read16 (memory s) (chips s) 0xFFFC)
   \<and> SP (reset s) = 0xFD \<and> A (reset s) = 0 \<and> X (reset s) = 0 \<and> Y (reset s) = 0 \<and> I (reset s)
   \<and> N (reset s) = N s \<and> V (reset s) = V s \<and> B (reset s) = B s \<and> D (reset s) = D s
   \<and> Z (reset s) = Z s \<and> C (reset s) = C s
   \<and> memory (reset s) = memory s"
    by (simp add: reset_eq)
  have k: "PC (reset s) =
        uint ((if bankConfig (memory s) AND 0x02 \<noteq> 0 then rom (memory s) else ram (memory s))
                0xFFFC)
        OR push_bit 8
             (uint ((if bankConfig (memory s) AND 0x02 \<noteq> 0 then rom (memory s)
                     else ram (memory s)) 0xFFFD))
      \<and> chips (reset s) = chips s
      \<and> registers_flags (reset (reset s)) = registers_flags (reset s)
      \<and> memory (reset (reset s)) = memory (reset s)"
    if h: "find_handler (ioHandlers (memory s)) 0xFFFC = None
        \<and> find_handler (ioHandlers (memory s)) 0xFFFD = None"
  proof -
    from h have h1: "find_handler (ioHandlers (memory s)) 0xFFFC = None"
      and h2: "find_handler (ioHandlers (memory s)) 0xFFFD = None" by simp_all
    note c [OF h1 h2]
    with p [OF h1 h2] r m [of "reset s"] show ?thesis by blast
  qed
  from u k show ?thesis by blast
qed

theorem reset_idempotent_witness:
  "(find_handler (ioHandlers (memory interrupted_cpu)) 0xFFFC = None
      \<and> find_handler (ioHandlers (memory interrupted_cpu)) 0xFFFD = None)
   \<and> registers_flags (reset interrupted_cpu)
       = (0, 0, 0, 0xFD, 0xFCE2, True, False, False, True, True, False, True)
   \<and> registers_flags (reset (reset interrupted_cpu)) = registers_flags (reset interrupted_cpu)
   \<and> chips (reset interrupted_cpu) = chips interrupted_cpu
   \<and> memory (reset interrupted_cpu) = memory interrupted_cpu"
proof -
  have h: "find_handler (ioHandlers (memory interrupted_cpu)) 0xFFFC = None
      \<and> find_handler (ioHandlers (memory interrupted_cpu)) 0xFFFD = None"
    by (simp add: interrupted_cpu_fields vector_memory_fields example_no_handler)
  note t = reset_idempotent [of interrupted_cpu]
  from t h have 1: "registers_flags (reset (reset interrupted_cpu))
      = registers_flags (reset interrupted_cpu)"
    by blast
  from t h have 2: "chips (reset interrupted_cpu) = chips interrupted_cpu" by blast
  from t have 3: "memory (reset interrupted_cpu) = memory interrupted_cpu" by blast
  from t h have "PC (reset interrupted_cpu) =
        uint ((if bankConfig (memory interrupted_cpu) AND 0x02 \<noteq> 0
               then rom (memory interrupted_cpu) else ram (memory interrupted_cpu)) 0xFFFC)
        OR push_bit 8
             (uint ((if bankConfig (memory interrupted_cpu) AND 0x02 \<noteq> 0
                     then rom (memory interrupted_cpu) else ram (memory interrupted_cpu)) 0xFFFD))"
    by blast
  then have 4: "PC (reset interrupted_cpu) = 0xFCE2"
    by (simp add: interrupted_cpu_fields vector_memory_fields)
  from t 4 have 5: "registers_flags (reset interrupted_cpu)
       = (0, 0, 0, 0xFD, 0xFCE2, True, False, False, True, True, False, True)"
    by (simp add: registers_flags_def interrupted_cpu_fields)
  from h 1 2 3 5 show ?thesis by blast
qed

section \<open>Opcodes without an instruction\<close>

text \<open>
  Claim C7.  When the byte at PC is an opcode from 0 to 255 to which
  \<^verbatim>\<open>buildInstructionTable\<close> assigns no instruction, \<^verbatim>\<open>step\<close> returns 2 with a state
  in which PC is PC + 1 modulo 65536, the console has one more line (the opcode, with the
  new PC) and the cycle counter is 2 higher; A, X, Y, SP, the seven flags and the memory
  object are unchanged.  \<^verbatim>\<open>step\<close> is a total function: there is no input on which it
  fails.
\<close>

theorem step_unassigned_opcode:
  fixes s :: "'d cpu"
  assumes "fst (read (memory s) (chips s) (PC s)) = opcode"
    and "0 \<le> opcode \<and> opcode \<le> 255"
    and "map_of (assigned :: (int \<times> ('d cpu \<Rightarrow> int \<times> 'd cpu)) list) opcode = None"
  shows "step s =
           (2, s\<lparr>chips := snd (read (memory s) (chips s) (PC s)),
                  PC := (PC s + 1) AND 0xFFFF,
                  console := console s @ [Illegal_opcode opcode ((PC s + 1) AND 0xFFFF)],
                  cycles := cycles s + 2\<rparr>)
       \<and> fst (step s) = 2
       \<and> PC (snd (step s)) = (PC s + 1) mod 65536
       \<and> A (snd (step s)) = A s \<and> X (snd (step s)) = X s \<and> Y (snd (step s)) = Y s
       \<and> SP (snd (step s)) = SP s
       \<and> N (snd (step s)) = N s \<and> V (snd (step s)) = V s \<and> B (snd (step s)) = B s
       \<and> D (snd (step s)) = D s \<and> I (snd (step s)) = I s \<and> Z (snd (step s)) = Z s
       \<and> C (snd (step s)) = C s
       \<and> memory (snd (step s)) = memory s"
proof -
  have i: "instructions opcode = Some (illegal_opcode opcode :: 'd cpu \<Rightarrow> int \<times> 'd cpu)"
    using instructions_unassigned [OF assms(2,3)] .
  have e: "step s =
           (2, s\<lparr>chips := snd (read (memory s) (chips s) (PC s)),
                  PC := (PC s + 1) AND 0xFFFF,
                  console := console s @ [Illegal_opcode opcode ((PC s + 1) AND 0xFFFF)],
                  cycles := cycles s + 2\<rparr>)"
    using assms(1) by (simp add: step_def memory_read_eq i illegal_opcode_def)
  show ?thesis by (simp add: e and_0xFFFF)
qed

theorem step_unassigned_opcode_witness:
  "fst (read (memory illegal_cpu) (chips illegal_cpu) (PC illegal_cpu)) = 0x02
   \<and> ((0::int) \<le> 0x02 \<and> (0x02::int) \<le> 255)
   \<and> map_of (assigned :: (int \<times> (vic2 cpu \<Rightarrow> int \<times> vic2 cpu)) list) 0x02 = None
   \<and> fst (step illegal_cpu) = 2
   \<and> PC (snd (step illegal_cpu)) = 0
   \<and> SP (snd (step illegal_cpu)) = 0xFD
   \<and> memory (snd (step illegal_cpu)) = memory illegal_cpu
   \<and> console (snd (step illegal_cpu)) = [Illegal_opcode 0x02 0]"
proof -
  have f: "memory illegal_cpu = example_memory\<lparr>rom := (\<lambda>_. 0)(0xFFFF := 0x02)\<rparr>"
    "chips illegal_cpu = VIC2_new" "PC illegal_cpu = 0xFFFF" "SP illegal_cpu = 0xFD"
    "console illegal_cpu = []"
    by (simp_all add: illegal_cpu_def example_cpu_fields)
  have h1: "fst (read (memory illegal_cpu) (chips illegal_cpu) (PC illegal_cpu)) = 0x02"
    by (simp add: f read_def ioHandlers_example example_memory_fields)
  have h2: "(0::int) \<le> 0x02 \<and> (0x02::int) \<le> 255" by simp
  note t = step_unassigned_opcode [OF h1 h2 assigned_0x02]
  from t have 1: "fst (step illegal_cpu) = 2" by blast
  from t have 2: "PC (snd (step illegal_cpu)) = 0" by (simp add: f)
  from t have 3: "SP (snd (step illegal_cpu)) = 0xFD" by (simp add: f)
  from t have 4: "memory (snd (step illegal_cpu)) = memory illegal_cpu" by blast
  from t have 5: "console (snd (step illegal_cpu)) = [Illegal_opcode 0x02 0]" by (simp add: f)
  from h1 h2 assigned_0x02 1 2 3 4 5 show ?thesis by blast
qed

section \<open>Raster line counter\<close>

lemma cycle_method_within_line:
  assumes "cycleCounter v + 1 < 63"
  shows "cycle_method v = v\<lparr>cycleCounter := cycleCounter v + 1\<rparr>"
  using assms by (simp add: cycle_method_def Let_def)

lemma cycle_method_end_of_line:
  assumes "cycleCounter v + 1 \<ge> 63"
  shows "cycle_method v =
     (if rasterY v + 1 \<ge> 312
      then v\<lparr>cycleCounter := 0, rasterY := 0, frameComplete := True\<rparr>
      else v\<lparr>cycleCounter := 0, rasterY := rasterY v + 1\<rparr>)"
  using assms by (simp add: cycle_method_def Let_def)

lemma cycle_method_own_cycle: "own_cycle (cycle_method v) = own_cycle v"
  by (simp add: cycle_method_def Let_def)

lemma cycle_method_rasterY_range:
  assumes "0 \<le> rasterY v \<and> rasterY v \<le> 311"
  shows "0 \<le> rasterY (cycle_method v) \<and> rasterY (cycle_method v) \<le> 311"
  using assms by (simp add: cycle_method_def Let_def)

lemma cycle_never_reset: "own_cycle v = None \<Longrightarrow> cycle v = Inr (cycle_method v)"
  by (simp add: cycle_def)

lemma cycle_times_last:
  "cycle_times (Suc n) v = (case cycle_times n v of Inl e \<Rightarrow> Inl e | Inr v' \<Rightarrow> cycle v')"
proof (induction n arbitrary: v)
  case 0
  show ?case by (simp split: sum.split)
next
  case (Suc n)
  show ?case
  proof (cases "cycle v")
    case (Inl e)
    then show ?thesis by simp
  next
    case (Inr v')
    with Suc.IH [of v'] show ?thesis by simp
  qed
qed

lemma cycle_times_within_line:
  "own_cycle v = None \<Longrightarrow> cycleCounter v + int k < 63 \<Longrightarrow>
     cycle_times k v = Inr (v\<lparr>cycleCounter := cycleCounter v + int k\<rparr>)"
proof (induction k arbitrary: v)
  case 0
  then show ?case by simp
next
  case (Suc k)
  from Suc.prems have c: "cycle_method v = v\<lparr>cycleCounter := cycleCounter v + 1\<rparr>"
    by (intro cycle_method_within_line) simp
  from Suc.prems have o: "own_cycle (cycle_method v) = None"
    by (simp add: cycle_method_own_cycle)
  from Suc.prems have "cycleCounter (cycle_method v) + int k < 63" by (simp add: c)
  from Suc.IH [OF o this] Suc.prems(1) show ?case by (simp add: cycle_never_reset c)
qed

lemma cycle_times_rasterY_range:
  "own_cycle v = None \<Longrightarrow> 0 \<le> rasterY v \<and> rasterY v \<le> 311 \<Longrightarrow>
     (case cycle_times n v of
        Inl e \<Rightarrow> False
      | Inr v' \<Rightarrow> own_cycle v' = None \<and> 0 \<le> rasterY v' \<and> rasterY v' \<le> 311)"
proof (induction n arbitrary: v)
  case 0
  then show ?case by simp
next
  case (Suc n)
  from Suc.prems have o: "own_cycle (cycle_method v) = None"
    by (simp add: cycle_method_own_cycle)
  from Suc.IH [OF o cycle_method_rasterY_range [OF Suc.prems(2)]] Suc.prems(1)
  show ?case by (simp add: cycle_never_reset)
qed

text \<open>
  On a chip on which \<^verbatim>\<open>reset\<close> was never called, the calls count as the specification
  says.  From a cycle counter of 0 and a raster line in 0 to 311: fewer than 63 calls only
  move the cycle counter; 63 calls return it to 0 and move the raster line to the next
  line modulo 312, raising the frame-complete flag when they leave line 311.
\<close>

lemma raster_line_never_reset:
  assumes "own_cycle v = None" and "cycleCounter v = 0"
    and "0 \<le> rasterY v \<and> rasterY v \<le> 311"
  shows "(k < 63 \<longrightarrow> cycle_times k v = Inr (v\<lparr>cycleCounter := int k\<rparr>))
       \<and> cycle_times 63 v =
           Inr (v\<lparr>cycleCounter := 0, rasterY := (rasterY v + 1) mod 312,
                  frameComplete := (frameComplete v \<or> rasterY v = 311)\<rparr>)"
proof -
  have 1: "cycle_times k v = Inr (v\<lparr>cycleCounter := int k\<rparr>)" if "k < 63"
    using cycle_times_within_line [OF assms(1), of k] assms(2) that by simp
  have 62: "cycle_times 62 v = Inr (v\<lparr>cycleCounter := 62\<rparr>)"
    using cycle_times_within_line [OF assms(1), of 62] assms(2) by simp
  have "cycle_times 63 v = cycle (v\<lparr>cycleCounter := 62\<rparr>)"
    using cycle_times_last [of 62 v] by (simp add: 62)
  also have "\<dots> = Inr (cycle_method (v\<lparr>cycleCounter := 62\<rparr>))"
    using assms(1) by (simp add: cycle_never_reset)
  also have "cycle_method (v\<lparr>cycleCounter := 62\<rparr>) =
      v\<lparr>cycleCounter := 0, rasterY := (rasterY v + 1) mod 312,
        frameComplete := (frameComplete v \<or> rasterY v = 311)\<rparr>"
  proof (cases "rasterY v = 311")
    case True
    then show ?thesis
      using cycle_method_end_of_line [of "v\<lparr>cycleCounter := 62\<rparr>"] by simp
  next
    case False
    with assms(3) have "rasterY v + 1 < 312" by simp
    with False assms(3) show ?thesis
      using cycle_method_end_of_line [of "v\<lparr>cycleCounter := 62\<rparr>"] by simp
  qed
  finally have 2: "cycle_times 63 v =
           Inr (v\<lparr>cycleCounter := 0, rasterY := (rasterY v + 1) mod 312,
                  frameComplete := (frameComplete v \<or> rasterY v = 311)\<rparr>)" .
  from 1 2 show ?thesis by blast
qed

text \<open>
  Claim C9.  The claim is about every chip state whose cycle counter is 0, and the state
  a chip is in after \<^verbatim>\<open>reset()\<close> is one: \<^verbatim>\<open>C64Emulator.reset\<close> calls \<^verbatim>\<open>vic.reset()\<close>
  before \<^verbatim>\<open>runFrame\<close> calls \<^verbatim>\<open>vic.cycle()\<close>.  On that state the code does not do what
  the claim says.  \<^verbatim>\<open>reset\<close> assigns \<^verbatim>\<open>this.cycle = 0\<close> (the constructor's counter is
  \<^verbatim>\<open>cycleCounter\<close>), so after it every call \<^verbatim>\<open>cycle()\<close> throws \<^verbatim>\<open>TypeError\<close>: a fresh
  chip that was reset has cycle counter 0 and raster line 0, and neither one call nor
  63 calls advance the raster line.
\<close>

theorem cycle_after_reset:
  "cycleCounter (VIC2_reset VIC2_new) = 0
   \<and> rasterY (VIC2_reset VIC2_new) = 0
   \<and> cycle (VIC2_reset v) = Inl TypeError
   \<and> cycle_times 63 (VIC2_reset v) = Inl TypeError"
proof -
  have c: "cycle (VIC2_reset v) = Inl TypeError"
    by (simp add: cycle_def VIC2_reset_def)
  have "cycle_times (Suc 62) (VIC2_reset v) = Inl TypeError"
    by (simp only: cycle_times.simps c sum.case)
  then have "cycle_times 63 (VIC2_reset v) = Inl TypeError" by simp
  with c show ?thesis by (simp add: VIC2_reset_def VIC2_new_def)
qed

section \<open>The stack page\<close>

text \<open>
  Claim C10.  From a state whose stack pointer is an 8-bit value: \<^verbatim>\<open>push\<close> is one
  memory write at \<open>0x0100 + SP\<close> and \<^verbatim>\<open>pull\<close> one memory read at \<open>0x0100 + (SP + 1) mod 256\<close>,
  \<^verbatim>\<open>push16\<close> and \<^verbatim>\<open>pull16\<close> are two of them at neighbouring addresses modulo 256,
  and all these addresses are in the stack page; the new stack pointer is the old one
  moved by the number of bytes modulo 256, an 8-bit value.  PHA, JSR, \<^verbatim>\<open>irq\<close> and
  \<^verbatim>\<open>nmi\<close> move SP down by 1, 2, 3 and 3 modulo 256 and change no part of the memory
  object but RAM cells of the stack page; PLA, RTS and RTI move SP up by 1, 2 and 3
  modulo 256 and leave the memory object unchanged.
\<close>

theorem stack_page_invariant:
  assumes "stack_pointer_ok s"
  shows "stack_page (0x0100 + SP s)
       \<and> stack_page (0x0100 + (SP s - 1) mod 256)
       \<and> stack_page (0x0100 + (SP s + 1) mod 256)
       \<and> stack_page (0x0100 + (SP s + 2) mod 256)
       \<and> push s v = (memory_write s (0x0100 + SP s) v)\<lparr>SP := (SP s - 1) mod 256\<rparr>
       \<and> push16 s w =
           (memory_write (memory_write s (0x0100 + SP s) (drop_bit 8 w AND 0xFF))
              (0x0100 + (SP s - 1) mod 256) (w AND 0xFF))\<lparr>SP := (SP s - 2) mod 256\<rparr>
       \<and> pull s = memory_read (s\<lparr>SP := (SP s + 1) mod 256\<rparr>) (0x0100 + (SP s + 1) mod 256)
       \<and> pull16 s =
           (case memory_read (s\<lparr>SP := (SP s + 1) mod 256\<rparr>) (0x0100 + (SP s + 1) mod 256) of
              (lo, s1) \<Rightarrow>
            case memory_read (s1\<lparr>SP := (SP s + 2) mod 256\<rparr>) (0x0100 + (SP s + 2) mod 256) of
              (hi, s2) \<Rightarrow> (push_bit 8 hi OR lo, s2))
       \<and> stack_pointer_ok (push s v) \<and> stack_pointer_ok (push16 s w)
       \<and> stack_pointer_ok (snd (pull s)) \<and> stack_pointer_ok (snd (pull16 s))
       \<and> outside_stack_page_unchanged (memory s) (memory (push s v))
       \<and> outside_stack_page_unchanged (memory s) (memory (push16 s w))
       \<and> memory (snd (pull s)) = memory s \<and> memory (snd (pull16 s)) = memory s
       \<and> SP (snd (PHA s)) = (SP s - 1) mod 256
       \<and> outside_stack_page_unchanged (memory s) (memory (snd (PHA s)))
       \<and> SP (snd (PLA s)) = (SP s + 1) mod 256 \<and> memory (snd (PLA s)) = memory s
       \<and> SP (snd (JSR s)) = (SP s - 2) mod 256
       \<and> outside_stack_page_unchanged (memory s) (memory (snd (JSR s)))
       \<and> SP (snd (RTS s)) = (SP s + 2) mod 256 \<and> memory (snd (RTS s)) = memory s
       \<and> SP (snd (RTI s)) = (SP s + 3) mod 256 \<and> memory (snd (RTI s)) = memory s
       \<and> SP (irq s) = (if I s then SP s else (SP s - 3) mod 256)
       \<and> outside_stack_page_unchanged (memory s) (memory (irq s))
       \<and> SP (nmi s) = (SP s - 3) mod 256
       \<and> outside_stack_page_unchanged (memory s) (memory (nmi s))"
proof -
  from assms have sp: "stack_page (0x0100 + SP s)"
    by (simp add: stack_pointer_ok_def stack_page_def)
  have a1: "stack_page (0x0100 + (SP s - 1) mod 256)" by (rule stack_page_mod)
  have a2: "stack_page (0x0100 + (SP s + 1) mod 256)" by (rule stack_page_mod)
  have a3: "stack_page (0x0100 + (SP s + 2) mod 256)" by (rule stack_page_mod)
  have e1: "push s v = (memory_write s (0x0100 + SP s) v)\<lparr>SP := (SP s - 1) mod 256\<rparr>"
    using push_eq [of s v] by (simp add: and_0xFF)
  have e2: "push16 s w =
           (memory_write (memory_write s (0x0100 + SP s) (drop_bit 8 w AND 0xFF))
              (0x0100 + (SP s - 1) mod 256) (w AND 0xFF))\<lparr>SP := (SP s - 2) mod 256\<rparr>"
    using push16_eq [of s w] by (simp add: and_0xFF)
  have e3: "pull s = memory_read (s\<lparr>SP := (SP s + 1) mod 256\<rparr>) (0x0100 + (SP s + 1) mod 256)"
    using pull_eq [of s] by (simp add: and_0xFF)
  have e4: "pull16 s =
           (case memory_read (s\<lparr>SP := (SP s + 1) mod 256\<rparr>) (0x0100 + (SP s + 1) mod 256) of
              (lo, s1) \<Rightarrow>
            case memory_read (s1\<lparr>SP := (SP s + 2) mod 256\<rparr>) (0x0100 + (SP s + 2) mod 256) of
              (hi, s2) \<Rightarrow> (push_bit 8 hi OR lo, s2))"
    using pull16_eq [of s] by (simp add: and_0xFF)
  have k1: "stack_pointer_ok (push s v)"
    by (rule ok_mod [of _ "SP s - 1"]) (simp add: push_fields and_0xFF)
  have k2: "stack_pointer_ok (push16 s w)"
    by (rule ok_mod [of _ "SP s - 2"]) (simp add: push16_SP and_0xFF)
  have k3: "stack_pointer_ok (snd (pull s))"
    by (rule ok_mod [of _ "SP s + 1"]) (simp add: pull_fields and_0xFF)
  have k4: "stack_pointer_ok (snd (pull16 s))"
    by (rule ok_mod [of _ "SP s + 2"]) (simp add: pull16_fields and_0xFF)
  have m1: "outside_stack_page_unchanged (memory s) (memory (push s v))"
    by (rule push_memory [OF sp])
  have m2: "outside_stack_page_unchanged (memory s) (memory (push16 s w))"
    by (rule push16_memory [OF sp])
  have m3: "memory (snd (pull s)) = memory s" by (simp add: pull_fields)
  have m4: "memory (snd (pull16 s)) = memory s" by (simp add: pull16_fields)
  have pha1: "SP (snd (PHA s)) = (SP s - 1) mod 256"
    by (simp add: PHA_def push_fields and_0xFF)
  have pha2: "outside_stack_page_unchanged (memory s) (memory (snd (PHA s)))"
    using push_memory [OF sp, of "A s"] by (simp add: PHA_def)
  have pla1: "SP (snd (PLA s)) = (SP s + 1) mod 256"
    by (simp add: PLA_def split_beta Let_def setNZ_fields pull_fields and_0xFF)
  have pla2: "memory (snd (PLA s)) = memory s"
    by (simp add: PLA_def split_beta Let_def setNZ_fields pull_fields)
  have sp': "stack_page (0x0100 + SP (snd (absolute s)))"
    using sp by (simp add: absolute_fields)
  have jsr1: "SP (snd (JSR s)) = (SP s - 2) mod 256"
    by (simp add: JSR_def split_beta Let_def push16_SP absolute_fields and_0xFF)
  have jsr2: "outside_stack_page_unchanged (memory s) (memory (snd (JSR s)))"
    using push16_memory [OF sp', of "PC (snd (absolute s)) - 1"]
    by (simp add: JSR_def split_beta Let_def absolute_fields)
  have rts1: "SP (snd (RTS s)) = (SP s + 2) mod 256"
    by (simp add: RTS_def split_beta pull16_fields and_0xFF)
  have rts2: "memory (snd (RTS s)) = memory s"
    by (simp add: RTS_def split_beta pull16_fields)
  have rti1: "SP (snd (RTI s)) = (SP s + 3) mod 256"
    by (simp add: RTI_def split_beta pull16_fields setP_fields pull_fields inc_inc_inc [symmetric] and_0xFF)
      presburger
  have rti2: "memory (snd (RTI s)) = memory s"
    by (simp add: RTI_def split_beta pull16_fields setP_fields pull_fields)
  have irq1: "SP (irq s) = (if I s then SP s else (SP s - 3) mod 256)"
    by (simp add: irq_eq spec_interrupt_fields and_0xFF)
  have irq2: "outside_stack_page_unchanged (memory s) (memory (irq s))"
    using interrupt_memory [OF sp, of "0xFFFE"] by (simp add: irq_eq outside_refl)
  have nmi1: "SP (nmi s) = (SP s - 3) mod 256"
    by (simp add: nmi_eq spec_interrupt_fields and_0xFF)
  have nmi2: "outside_stack_page_unchanged (memory s) (memory (nmi s))"
    using interrupt_memory [OF sp, of "0xFFFA"] by (simp add: nmi_eq)
  show ?thesis
    by (intro conjI) (fact sp a1 a2 a3 e1 e2 e3 e4 k1 k2 k3 k4 m1 m2 m3 m4 pha1 pha2 pla1 pla2
        jsr1 jsr2 rts1 rts2 rti1 rti2 irq1 irq2 nmi1 nmi2)+
qed

theorem stack_page_invariant_witness:
  "stack_pointer_ok running_cpu
   \<and> stack_page (0x0100 + SP running_cpu)
   \<and> SP (push running_cpu 0x42) = 0xFC
   \<and> SP (push16 running_cpu 0x1234) = 0xFB
   \<and> SP (snd (pull running_cpu)) = 0xFE
   \<and> SP (snd (JSR running_cpu)) = 0xFB
   \<and> SP (nmi running_cpu) = 0xFA
   \<and> stack_pointer_ok (running_cpu\<lparr>SP := 0\<rparr>)
   \<and> SP (push (running_cpu\<lparr>SP := 0\<rparr>) 0x42) = 0xFF
   \<and> stack_pointer_ok (running_cpu\<lparr>SP := 0xFF\<rparr>)
   \<and> SP (snd (pull (running_cpu\<lparr>SP := 0xFF\<rparr>))) = 0
   \<and> SP (snd (RTI (running_cpu\<lparr>SP := 0xFF\<rparr>))) = 2"
proof -
  have f: "SP running_cpu = 0xFD" by (simp add: running_cpu_def example_cpu_fields)
  have h1: "stack_pointer_ok running_cpu" by (simp add: stack_pointer_ok_def f)
  have h2: "stack_pointer_ok (running_cpu\<lparr>SP := 0\<rparr>)" by (simp add: stack_pointer_ok_def)
  have h3: "stack_pointer_ok (running_cpu\<lparr>SP := 0xFF\<rparr>)" by (simp add: stack_pointer_ok_def)
  note t1 = stack_page_invariant [OF h1, of "0x42" "0x1234"]
  note t2 = stack_page_invariant [OF h2, of "0x42" "0x1234"]
  note t3 = stack_page_invariant [OF h3, of "0x42" "0x1234"]
  from t1 have 1: "stack_page (0x0100 + SP running_cpu)" by blast
  from t1 have "SP (push running_cpu 0x42) = (SP running_cpu - 1) mod 256" by simp
  then have 2: "SP (push running_cpu 0x42) = 0xFC" by (simp add: f)
  from t1 have "SP (push16 running_cpu 0x1234) = (SP running_cpu - 2) mod 256" by simp
  then have 3: "SP (push16 running_cpu 0x1234) = 0xFB" by (simp add: f)
  from t1 have "SP (snd (pull running_cpu)) = (SP running_cpu + 1) mod 256"
    by (simp add: memory_read_eq)
  then have 4: "SP (snd (pull running_cpu)) = 0xFE" by (simp add: f)
  from t1 have "SP (snd (JSR running_cpu)) = (SP running_cpu - 2) mod 256" by blast
  then have 5: "SP (snd (JSR running_cpu)) = 0xFB" by (simp add: f)
  from t1 have "SP (nmi running_cpu) = (SP running_cpu - 3) mod 256" by blast
  then have 6: "SP (nmi running_cpu) = 0xFA" by (simp add: f)
  from t2 have "SP (push (running_cpu\<lparr>SP := 0\<rparr>) 0x42) = (SP (running_cpu\<lparr>SP := 0\<rparr>) - 1) mod 256"
    by simp
  then have 7: "SP (push (running_cpu\<lparr>SP := 0\<rparr>) 0x42) = 0xFF" by simp
  from t3 have "SP (snd (pull (running_cpu\<lparr>SP := 0xFF\<rparr>))) = (SP (running_cpu\<lparr>SP := 0xFF\<rparr>) + 1) mod 256"
    by (simp add: memory_read_eq)
  then have 8: "SP (snd (pull (running_cpu\<lparr>SP := 0xFF\<rparr>))) = 0" by simp
  from t3 have "SP (snd (RTI (running_cpu\<lparr>SP := 0xFF\<rparr>))) = (SP (running_cpu\<lparr>SP := 0xFF\<rparr>) + 3) mod 256"
    by blast
  then have 9: "SP (snd (RTI (running_cpu\<lparr>SP := 0xFF\<rparr>))) = 2" by simp
  from h1 h2 h3 1 2 3 4 5 6 7 8 9 show ?thesis by blast
qed

end
